theory Spec2Isabelle
  imports Complex_Main "HOL-Library.Word"
begin

unbundle bit_operations_syntax

section \<open>Receiver data (GNSSdataFromOSP.h)\<close>

text \<open>\<open>struct ChannelObs\<close>: the observables of one channel and satellite during one
  epoch. The C++ type \<open>double\<close> is modelled by \<^typ>\<open>real\<close> throughout. The member
  \<open>system\<close> is \<open>chSystem\<close> here, \<open>system\<close> being the member of \<open>GNSSsystem\<close> below.\<close>

record ChannelObs =
  chSystem :: char
  satPrn :: int
  psedrng :: real
  carrPh :: real
  carrFq :: real
  signalStrg :: real
  limitOl :: int
  strgIdx :: int
  timeT :: real

definition C1CADJ :: real where
  "C1CADJ = 299792458"

definition L1CADJ :: real where
  "L1CADJ = 1575420000"

definition L1WLINV :: real where
  "L1WLINV = 1575420000 / 299792458"

section \<open>RINEX data model (RinexData.h, RinexData.cpp)\<close>

text \<open>
  The C++ type \<open>double\<close> is modelled by \<^typ>\<open>real\<close>: the functions of this section
  only compare and copy such values, and rounding is not modelled anywhere. The C++ type
  \<open>int\<close> is modelled by \<^typ>\<open>int\<close> where it holds satellite numbers, indexes and
  flags. Calls of the logger change no data of the model and are left out.
\<close>

text \<open>\<open>struct GNSSsystem\<close>: a system of the header, its observable types and the
  selection flags used for filtering.\<close>

record GNSSsystem =
  system :: char
  selSystem :: bool
  obsType :: "string list"
  selObsType :: "bool list"
  selSat :: "int list"

text \<open>\<open>struct SatObsData\<close>: one observable of one satellite in the current epoch.\<close>

record SatObsData =
  obsTimeTag :: real
  sysIndex :: int
  satellite :: int
  obsTypeIndex :: int
  obsValue :: real
  lossOfLock :: int
  strength :: int

text \<open>\<open>struct SatNavData\<close>: the broadcast orbit data of one satellite, eight lines of
  four parameters each.\<close>

record SatNavData =
  navTimeTag :: real
  systemId :: char
  satellite :: int
  broadcastOrbit :: "real list list"

text \<open>The members of \<open>class RinexData\<close> that the functions below read or write.\<close>

record RinexData =
  systems :: "GNSSsystem list"
  epochTimeTag :: real
  epochObs :: "SatObsData list"
  epochNav :: "SatNavData list"
  applyObsFilter :: bool
  applyNavFilter :: bool
  selectedSats :: "string list"

text \<open>\<open>RinexData::sysInx\<close>: the index of the system code in \<open>systems\<close>, or \<open>-1\<close>.\<close>

fun sysInx_from :: "GNSSsystem list \<Rightarrow> char \<Rightarrow> int \<Rightarrow> int" where
  "sysInx_from [] sysCode i = - 1"
| "sysInx_from (g # gs) sysCode i =
     (if system g = sysCode then i else sysInx_from gs sysCode (i + 1))"

definition sysInx :: "RinexData \<Rightarrow> char \<Rightarrow> int" where
  "sysInx r sysCode = sysInx_from (systems r) sysCode 0"

text \<open>The search loop over \<open>systems[sx].obsType\<close> that \<open>saveObsData\<close> and \<open>setFilter\<close>
  both contain: the first index \<open>ox\<close> whose observable type equals the one given.\<close>

fun findObsType :: "string list \<Rightarrow> string \<Rightarrow> nat \<Rightarrow> nat option" where
  "findObsType [] obsT ox = None"
| "findObsType (t # ts) obsT ox =
     (if obsT = t then Some ox else findObsType ts obsT (Suc ox))"

text \<open>\<open>RinexData::saveObsData\<close>. The result is the boolean returned and the new state.\<close>

definition saveObsData ::
  "char \<Rightarrow> int \<Rightarrow> string \<Rightarrow> real \<Rightarrow> int \<Rightarrow> int \<Rightarrow> real \<Rightarrow> RinexData \<Rightarrow> bool \<times> RinexData" where
  "saveObsData sys sat obsT val lol strg tTag r =
     (let sx = sysInx r sys;
          r1 = (if epochObs r = [] then r\<lparr>epochTimeTag := tTag\<rparr> else r);
          sameEpoch = (epochTimeTag r1 = tTag)
      in if sameEpoch \<and> 0 \<le> sx then
           (case findObsType (obsType (systems r1 ! nat sx)) obsT 0 of
              Some ox \<Rightarrow>
                (True, r1\<lparr>epochObs := epochObs r1 @
                   [\<lparr>obsTimeTag = tTag, sysIndex = sx, satellite = sat,
                     obsTypeIndex = int ox, obsValue = val, lossOfLock = lol,
                     strength = strg\<rparr>]\<rparr>)
            | None \<Rightarrow> (sameEpoch, r1))
         else (sameEpoch, r1))"

text \<open>A sequence of \<open>saveObsData\<close> calls, each given by its seven arguments; the boolean
  results are dropped.\<close>

type_synonym obsCall = "char \<times> int \<times> string \<times> real \<times> int \<times> int \<times> real"

fun saveObsCall :: "obsCall \<Rightarrow> RinexData \<Rightarrow> bool \<times> RinexData" where
  "saveObsCall (sys, sat, obsT, val, lol, strg, tTag) r =
     saveObsData sys sat obsT val lol strg tTag r"

fun saveObsCalls :: "obsCall list \<Rightarrow> RinexData \<Rightarrow> RinexData" where
  "saveObsCalls [] r = r"
| "saveObsCalls (c # cs) r = saveObsCalls cs (snd (saveObsCall c r))"

text \<open>\<open>RinexData::saveNavData\<close>. The loop over \<open>epochNav\<close> looks for a record of the same
  system, satellite and time tag.\<close>

definition saveNavData ::
  "char \<Rightarrow> int \<Rightarrow> real list list \<Rightarrow> real \<Rightarrow> RinexData \<Rightarrow> bool \<times> RinexData" where
  "saveNavData sys sat bo tTag r =
     (if list_ex (\<lambda>it. sys = systemId it \<and> sat = SatNavData.satellite it \<and> tTag = navTimeTag it)
           (epochNav r)
      then (False, r)
      else (True, r\<lparr>epochNav := epochNav r @
              [\<lparr>navTimeTag = tTag, systemId = sys, satellite = sat, broadcastOrbit = bo\<rparr>]\<rparr>))"

text \<open>The uniqueness key of a navigation record.\<close>

definition navKey :: "SatNavData \<Rightarrow> real \<times> char \<times> int" where
  "navKey it = (navTimeTag it, systemId it, SatNavData.satellite it)"

text \<open>Concrete data used to run the model: a header with GPS and GLONASS, each with the
  observables C1C and L1C, and empty stores.\<close>

definition sysG :: GNSSsystem where
  "sysG = \<lparr>system = CHR ''G'', selSystem = True, obsType = [''C1C'', ''L1C''],
           selObsType = [True, True], selSat = []\<rparr>"

definition sysR :: GNSSsystem where
  "sysR = \<lparr>system = CHR ''R'', selSystem = True, obsType = [''C1C'', ''L1C''],
           selObsType = [True, True], selSat = []\<rparr>"

definition rinexGR :: RinexData where
  "rinexGR = \<lparr>systems = [sysG, sysR], epochTimeTag = 0, epochObs = [], epochNav = [],
              applyObsFilter = False, applyNavFilter = False, selectedSats = []\<rparr>"

definition bo0 :: "real list list" where
  "bo0 = replicate 8 (replicate 4 0)"

section \<open>Bit and byte primitives (Utilities.cpp)\<close>

text \<open>
  The C++ type \<open>unsigned int\<close> is \<^typ>\<open>32 word\<close>. An \<open>int\<close> that holds a bit pattern
  is a \<^typ>\<open>32 word\<close> too, read by \<^const>\<open>sint\<close>: the conversions between \<open>int\<close> and
  \<open>unsigned int\<close> keep the bits.
\<close>

text \<open>\<open>getBits\<close>: the loop runs \<open>i\<close> from \<open>bitpos + len - 1\<close> down to \<open>bitpos\<close>; the
  recursion argument \<open>k\<close> is \<open>i - bitpos + 1\<close>. The stream is the array of words the
  pointer refers to; the source reads words \<open>bitpos div 32\<close> to
  \<open>(bitpos + len - 1) div 32\<close> of it.\<close>

fun getBits_loop :: "32 word list \<Rightarrow> nat \<Rightarrow> nat \<Rightarrow> 32 word \<Rightarrow> 32 word" where
  "getBits_loop stream bitpos 0 bits = bits"
| "getBits_loop stream bitpos (Suc k) bits =
     getBits_loop stream bitpos k
       (push_bit 1 bits OR
         (drop_bit ((bitpos + k) mod 32) (stream ! ((bitpos + k) div 32)) AND 1))"

definition getBits :: "32 word list \<Rightarrow> nat \<Rightarrow> nat \<Rightarrow> 32 word" where
  "getBits stream bitpos len = getBits_loop stream bitpos len 0"

text \<open>\<open>getTwosComplement\<close>. The result is the \<open>int\<close> returned, as its bit pattern. The
  subtraction wraps around. The callers pass \<open>nbits\<close> from 8 to 32; for \<open>nbits = 0\<close> the
  source shifts by \<open>nbits - 1 = 2^32 - 1\<close>, which C++ leaves undefined, and the properties
  below are stated for \<open>1 \<le> nbits\<close>.\<close>

definition getTwosComplement :: "32 word \<Rightarrow> nat \<Rightarrow> 32 word" where
  "getTwosComplement number nbits =
     (if 32 \<le> nbits then number
      else if number < push_bit (nbits - 1) 1 then number
      else number - push_bit nbits 1)"

section \<open>Ephemeris scaling (GNSSdataFromOSP.cpp)\<close>

definition ThisPI :: real where
  "ThisPI = 3.1415926535898"

text \<open>The tables filled by \<open>setTblValues\<close>; \<open>pow(2.0, -k)\<close> is \<open>1 / 2 ^ k\<close>.\<close>

definition GPS_SCALEFACTOR :: "real list list" where
  "GPS_SCALEFACTOR =
     [[2 ^ 4, 1 / 2 ^ 31, 1 / 2 ^ 43, 1 / 2 ^ 55],
      [1, 1 / 2 ^ 5, 1 / 2 ^ 43 * ThisPI, 1 / 2 ^ 31 * ThisPI],
      [1 / 2 ^ 29, 1 / 2 ^ 33, 1 / 2 ^ 29, 1 / 2 ^ 19],
      [2 ^ 4, 1 / 2 ^ 29, 1 / 2 ^ 31 * ThisPI, 1 / 2 ^ 29],
      [1 / 2 ^ 31 * ThisPI, 1 / 2 ^ 5, 1 / 2 ^ 31 * ThisPI, 1 / 2 ^ 43 * ThisPI],
      [1 / 2 ^ 43 * ThisPI, 1, 1, 1],
      [1, 1, 1 / 2 ^ 31, 1],
      [0.01, 1, 0, 0]]"

definition GPS_URA :: "real list" where
  "GPS_URA = [2, 2.8, 4, 5.7, 8, 11.3, 2 ^ 4, 2 ^ 5, 2 ^ 6, 2 ^ 7, 2 ^ 8, 2 ^ 9, 2 ^ 10,
              2 ^ 11, 2 ^ 12, 6144]"

text \<open>\<open>getSecsGPSEphe (int week, double tow)\<close>.\<close>

definition getSecsGPSEphe :: "int \<Rightarrow> real \<Rightarrow> real" where
  "getSecsGPSEphe week tow = real_of_int week * 604800 + tow"

text \<open>\<open>scaleGPSEphemeris\<close>. \<open>bom\<close> holds the 8 x 4 mantissas, values of C++ \<open>int\<close>. The
  function below is the body of the double loop for the indexes \<open>i\<close> and \<open>j\<close>; the
  conversion \<open>(unsigned int) bom[2][j]\<close> is \<open>mod 2 ^ 32\<close>. The index \<open>bom[6][0]\<close> comes
  from four bits and is not negative.\<close>

definition scaleGPSEphemeris_elem :: "int list list \<Rightarrow> nat \<Rightarrow> nat \<Rightarrow> real" where
  "scaleGPSEphemeris_elem bom i j =
     (let iodc = bom ! 6 ! 3 in
      if i = 7 \<and> j = 1 then
        (if bom ! 7 ! 1 = 0 then 4
         else if 240 \<le> iodc \<and> iodc \<le> 247 then 8
         else if 248 \<le> iodc \<and> iodc \<le> 255 then 14
         else if iodc = 496 then 14
         else if 497 \<le> iodc \<and> iodc \<le> 503 then 26
         else if 1021 \<le> iodc \<and> iodc \<le> 1023 then 26
         else 6)
      else if i = 6 \<and> j = 0 then
        (if bom ! 6 ! 0 < 16 then GPS_URA ! nat (bom ! 6 ! 0) else GPS_URA ! 15)
      else if i = 2 \<and> (j = 1 \<or> j = 3) then
        real_of_int (bom ! 2 ! j mod 2 ^ 32) * GPS_SCALEFACTOR ! 2 ! j
      else real_of_int (bom ! i ! j) * GPS_SCALEFACTOR ! i ! j)"

text \<open>The result is the time tag and the matrix \<open>bo\<close>.\<close>

definition scaleGPSEphemeris :: "int list list \<Rightarrow> real \<times> real list list" where
  "scaleGPSEphemeris bom =
     (getSecsGPSEphe (bom ! 5 ! 2) (real_of_int (bom ! 0 ! 0) * GPS_SCALEFACTOR ! 0 ! 0),
      map (\<lambda>i. map (\<lambda>j. scaleGPSEphemeris_elem bom i j) [0..<4]) [0..<8])"

text \<open>A mantissa matrix that is zero but for the fit flag \<open>bom[7][1]\<close> and the IODC
  \<open>bom[6][3]\<close>.\<close>

definition bomFit :: "int \<Rightarrow> int \<Rightarrow> int list list" where
  "bomFit fitFlag iodc =
     [[0, 0, 0, 0], [0, 0, 0, 0], [0, 0, 0, 0], [0, 0, 0, 0],
      [0, 0, 0, 0], [0, 0, 0, 0], [0, 0, 0, iodc], [0, fitFlag, 0, 0]]"

section \<open>OSP message reader (OSPmessage.h, OSPmessage.cpp)\<close>

definition MAXPAYLOADSIZE :: nat where
  "MAXPAYLOADSIZE = 2048"

text \<open>\<open>class OSPMessage\<close>. The payload buffer has \<open>MAXPAYLOADSIZE\<close> bytes.\<close>

record OSPMessage =
  payload :: "8 word list"
  payloadLength :: "32 word"
  cursor :: "32 word"

text \<open>The binary file is the list of the bytes not yet read. \<open>fread (buf, 1, n, file)\<close>
  delivers the next \<open>n\<close> bytes, or all the bytes left when they are fewer, and moves
  the file position past them; the number of bytes delivered is its result.\<close>

definition fread :: "nat \<Rightarrow> 8 word list \<Rightarrow> 8 word list \<times> 8 word list" where
  "fread n file = (take n file, drop n file)"

text \<open>\<open>OSPMessage::fill\<close>. The result is the boolean returned, the message object and
  the file. The bytes read overwrite the beginning of the payload buffer.\<close>

definition fill :: "8 word list \<Rightarrow> OSPMessage \<Rightarrow> bool \<times> OSPMessage \<times> 8 word list" where
  "fill file m =
     (let m0 = m\<lparr>cursor := 0\<rparr>;
          (buffer, file1) = fread 2 file
      in if length buffer < 2 then (False, m0, file1)
         else
           let m1 = m0\<lparr>payloadLength := push_bit 8 (ucast (buffer ! 0)) OR ucast (buffer ! 1)\<rparr>
           in if MAXPAYLOADSIZE < unat (payloadLength m1) then (False, m1, file1)
              else
                let (bytes, file2) = fread (unat (payloadLength m1)) file1;
                    m2 = m1\<lparr>payload := bytes @ drop (length bytes) (payload m1)\<rparr>
                in if length bytes < unat (payloadLength m1) then (False, m2, file2)
                   else (True, m2, file2))"

text \<open>An empty message object, as the constructor and the zeroed buffer give it.\<close>

definition emptyMessage :: OSPMessage where
  "emptyMessage = \<lparr>payload = replicate 2048 0, payloadLength = 0, cursor = 0\<rparr>"

text \<open>\<open>OSPMessage::get\<close>: the byte at the cursor, which moves on by one; the exception
  thrown is the left result.\<close>

definition get :: "OSPMessage \<Rightarrow> int + (int \<times> OSPMessage)" where
  "get m =
     (if payloadLength m \<le> cursor m then Inl 1
      else Inr (uint (payload m ! unat (cursor m)), m\<lparr>cursor := cursor m + 1\<rparr>))"

section \<open>Text conversions of the C library, as the code uses them\<close>

text \<open>The decimal digits of a number, as \<open>printf\<close> writes them.\<close>

fun decimal :: "nat \<Rightarrow> string" where
  "decimal n =
     (if n < 10 then [char_of (48 + n)]
      else decimal (n div 10) @ [char_of (48 + n mod 10)])"

declare decimal.simps [simp del]

definition padLeft :: "nat \<Rightarrow> char \<Rightarrow> string \<Rightarrow> string" where
  "padLeft w c s = replicate (w - length s) c @ s"

text \<open>\<open>printf\<close> with \<open>%d\<close>, \<open>%1d\<close> and \<open>%3d\<close>: the digits with a minus sign for a negative
  number, padded with blanks on the left to the width.\<close>

definition printf_d :: "nat \<Rightarrow> int \<Rightarrow> string" where
  "printf_d w n =
     padLeft w (CHR '' '') (if n < 0 then CHR ''-'' # decimal (nat (- n)) else decimal (nat n))"

text \<open>\<open>printf\<close> with \<open>%02d\<close>: padded with zeros to two characters, the sign first. With
  \<open>%02.2d\<close> the precision asks for two digits at least, and the sign comes before
  them.\<close>

definition printf_02d :: "int \<Rightarrow> string" where
  "printf_02d n =
     (if n < 0 then CHR ''-'' # padLeft 1 (CHR ''0'') (decimal (nat (- n)))
      else padLeft 2 (CHR ''0'') (decimal (nat n)))"

definition printf_02_2d :: "int \<Rightarrow> string" where
  "printf_02_2d n =
     (if n < 0 then CHR ''-'' # padLeft 2 (CHR ''0'') (decimal (nat (- n)))
      else padLeft 2 (CHR ''0'') (decimal (nat n)))"

text \<open>\<open>printf\<close> with \<open>%32c\<close> and \<open>%3c\<close>: the character, padded with blanks on the left.\<close>

definition printf_c :: "nat \<Rightarrow> char \<Rightarrow> string" where
  "printf_c w c = padLeft w (CHR '' '') [c]"

definition isspace :: "char \<Rightarrow> bool" where
  "isspace c = (c = CHR '' '' \<or> (9 \<le> (of_char c :: nat) \<and> (of_char c :: nat) \<le> 13))"

definition isdigit :: "char \<Rightarrow> bool" where
  "isdigit c = (48 \<le> (of_char c :: nat) \<and> (of_char c :: nat) \<le> 57)"

fun digitsValue :: "string \<Rightarrow> nat \<Rightarrow> nat" where
  "digitsValue [] acc = acc"
| "digitsValue (c # cs) acc = digitsValue cs (10 * acc + (of_char c - 48))"

text \<open>The conversion \<open>%d\<close> of \<open>sscanf\<close>, which is also what \<open>stoi\<close> reads: white space,
  an optional sign, then decimal digits. \<open>None\<close> when no digit is there. Numbers
  that do not fit an \<open>int\<close> are not modelled.\<close>

definition scan_d :: "string \<Rightarrow> int option" where
  "scan_d s =
     (let s1 = dropWhile isspace s;
          neg = (s1 \<noteq> [] \<and> hd s1 = CHR ''-'');
          s2 = (if s1 \<noteq> [] \<and> (hd s1 = CHR ''-'' \<or> hd s1 = CHR ''+'') then tl s1 else s1);
          ds = takeWhile isdigit s2
      in if ds = [] then None
         else Some (if neg then - int (digitsValue ds 0) else int (digitsValue ds 0)))"

text \<open>\<open>sscanf (s, "%c%d", ...)\<close>: \<open>None\<close> for the result EOF on an empty string, else the
  character and the number if one follows (results 1 and 2).\<close>

definition sscanf_cd :: "string \<Rightarrow> (char \<times> int option) option" where
  "sscanf_cd s = (case s of [] \<Rightarrow> None | c # rest \<Rightarrow> Some (c, scan_d rest))"

section \<open>Filtering (RinexData.cpp)\<close>

text \<open>\<open>RinexData::isSatSelected\<close>.\<close>

definition isSatSelected :: "RinexData \<Rightarrow> int \<Rightarrow> int \<Rightarrow> bool" where
  "isSatSelected r sysIx sat =
     (if selSat (systems r ! nat sysIx) = [] then True
      else sat \<in> set (selSat (systems r ! nat sysIx)))"

text \<open>\<open>SatObsData::operator <\<close>.\<close>

definition obsLess :: "SatObsData \<Rightarrow> SatObsData \<Rightarrow> bool" where
  "obsLess a b =
     (if obsTimeTag a > obsTimeTag b then False
      else if obsTimeTag a < obsTimeTag b then True
      else if sysIndex a > sysIndex b then False
      else if sysIndex a < sysIndex b then True
      else if SatObsData.satellite a > SatObsData.satellite b then False
      else if SatObsData.satellite a < SatObsData.satellite b then True
      else if obsTypeIndex a > obsTypeIndex b then False
      else True)"

text \<open>\<open>sort (epochObs.begin(), epochObs.end())\<close>: a permutation of the store in the order
  of \<open>operator <\<close>, modelled by insertion sort. C++ does not fix the order of records
  that the operator does not separate.\<close>

fun insertObs :: "SatObsData \<Rightarrow> SatObsData list \<Rightarrow> SatObsData list" where
  "insertObs x [] = [x]"
| "insertObs x (y # ys) = (if obsLess x y then x # y # ys else y # insertObs x ys)"

definition sortObs :: "SatObsData list \<Rightarrow> SatObsData list" where
  "sortObs xs = foldr insertObs xs []"

text \<open>The entry \<open>systems[i]\<close> changed by \<open>f\<close>.\<close>

definition updSystem :: "int \<Rightarrow> (GNSSsystem \<Rightarrow> GNSSsystem) \<Rightarrow> GNSSsystem list \<Rightarrow> GNSSsystem list" where
  "updSystem i f ss = ss[nat i := f (ss ! nat i)]"

text \<open>\<open>RinexData::setFilter\<close>, in the order of the source; its parameters \<open>selSat\<close> and
  \<open>selObs\<close> are \<open>selSatList\<close> and \<open>selObsList\<close> here. First the selection data are
  reset; the lists \<open>selSat\<close> of the systems are not.\<close>

definition setFilter_reset :: "RinexData \<Rightarrow> RinexData" where
  "setFilter_reset r =
     r\<lparr>applyNavFilter := False, applyObsFilter := False, selectedSats := [],
       systems := map (\<lambda>g. g\<lparr>selSystem := True, selObsType := map (\<lambda>_. True) (selObsType g)\<rparr>)
                    (systems r)\<rparr>"

text \<open>The loop that stores the selected satellites in the notation \<open>S\<close> or \<open>Snn\<close>;
  a token of another form is logged and ignored.\<close>

fun setFilter_norm :: "string list \<Rightarrow> string list" where
  "setFilter_norm [] = []"
| "setFilter_norm (t # ts) =
     (case sscanf_cd t of
        Some (s, None) \<Rightarrow> [s] # setFilter_norm ts
      | Some (s, Some n) \<Rightarrow> (s # printf_02_2d n) # setFilter_norm ts
      | None \<Rightarrow> setFilter_norm ts)"

text \<open>The loop over \<open>selectedSats\<close>, with the list \<open>inxSelSys\<close> and the flag
  \<open>areCoherent\<close>. \<open>None\<close> stands for the exception that \<open>at(0)\<close> throws on an empty
  string and \<open>stoi\<close> on a text without a number.\<close>

fun setFilter_sats ::
  "string list \<Rightarrow> RinexData \<Rightarrow> int list \<Rightarrow> bool \<Rightarrow> (RinexData \<times> int list \<times> bool) option" where
  "setFilter_sats [] r inxSelSys areCoherent = Some (r, inxSelSys, areCoherent)"
| "setFilter_sats ([] # ts) r inxSelSys areCoherent = None"
| "setFilter_sats ((c # rest) # ts) r inxSelSys areCoherent =
     (let sysIdx = sysInx r c
      in if sysIdx < 0 then setFilter_sats ts r inxSelSys False
         else if rest \<noteq> [] then
           (case scan_d rest of
              None \<Rightarrow> None
            | Some n \<Rightarrow>
                setFilter_sats ts
                  (r\<lparr>systems := updSystem sysIdx (\<lambda>g. g\<lparr>selSat := selSat g @ [n]\<rparr>) (systems r)\<rparr>)
                  (inxSelSys @ [sysIdx]) areCoherent)
         else setFilter_sats ts r (inxSelSys @ [sysIdx]) areCoherent)"

text \<open>The loop over \<open>selObs\<close>, with the lists \<open>inxSelSys\<close>, \<open>inxSysObs\<close>, \<open>inxObsSys\<close> and
  the flag \<open>areCoherent\<close>.\<close>

fun setFilter_obs ::
  "string list \<Rightarrow> RinexData \<Rightarrow> int list \<Rightarrow> int list \<Rightarrow> int list \<Rightarrow> bool \<Rightarrow>
     (int list \<times> int list \<times> int list \<times> bool) option" where
  "setFilter_obs [] r inxSelSys inxSysObs inxObsSys areCoherent =
     Some (inxSelSys, inxSysObs, inxObsSys, areCoherent)"
| "setFilter_obs ([] # ts) r inxSelSys inxSysObs inxObsSys areCoherent = None"
| "setFilter_obs ((c # rest) # ts) r inxSelSys inxSysObs inxObsSys areCoherent =
     (let sysIdx = sysInx r c
      in if sysIdx < 0 then setFilter_obs ts r inxSelSys inxSysObs inxObsSys False
         else
           (case findObsType (obsType (systems r ! nat sysIdx)) rest 0 of
              Some n \<Rightarrow>
                setFilter_obs ts r (inxSelSys @ [sysIdx]) (inxSysObs @ [sysIdx])
                  (inxObsSys @ [int n]) areCoherent
            | None \<Rightarrow> setFilter_obs ts r inxSelSys inxSysObs inxObsSys False))"

definition setFilter :: "string list \<Rightarrow> string list \<Rightarrow> RinexData \<Rightarrow> (bool \<times> RinexData) option" where
  "setFilter selSatList selObsList r =
     (let r0 = setFilter_reset r
      in if selSatList = [] \<and> selObsList = [] then Some (True, r0)
         else
           let r1 = r0\<lparr>selectedSats := setFilter_norm selSatList\<rparr>;
               r2 = r1\<lparr>applyNavFilter := (selectedSats r1 \<noteq> [])\<rparr>
           in case setFilter_sats (selectedSats r2) r2 [] True of
                None \<Rightarrow> None
              | Some (r3, inxSelSys1, coherent1) \<Rightarrow>
                  (case setFilter_obs selObsList r3 inxSelSys1 [] [] coherent1 of
                     None \<Rightarrow> None
                   | Some (inxSelSys, inxSysObs, inxObsSys, areCoherent) \<Rightarrow>
                       let ss1 = (if inxSelSys \<noteq> []
                                  then fold (\<lambda>i. updSystem i (\<lambda>g. g\<lparr>selSystem := True\<rparr>)) inxSelSys
                                         (map (\<lambda>g. g\<lparr>selSystem := False\<rparr>) (systems r3))
                                  else systems r3);
                           ss2 = (if inxObsSys \<noteq> []
                                  then fold (\<lambda>(i, n). updSystem i
                                               (\<lambda>g. g\<lparr>selObsType := (selObsType g)[nat n := True]\<rparr>))
                                         (zip inxSysObs inxObsSys)
                                         (fold (\<lambda>i. updSystem i
                                                  (\<lambda>g. g\<lparr>selObsType := map (\<lambda>_. False) (selObsType g)\<rparr>))
                                            inxSysObs ss1)
                                  else ss1)
                       in Some (areCoherent,
                                r3\<lparr>systems := ss2,
                                   applyObsFilter := list_ex selSystem ss2\<rparr>)))"

text \<open>\<open>RinexData::filterObsData\<close>: the loop erases the records of a system, an observable
  or a satellite that is not selected; then the store is sorted.\<close>

definition filterObsData :: "RinexData \<Rightarrow> bool \<times> RinexData" where
  "filterObsData r =
     (let kept = (if applyObsFilter r
                  then filter (\<lambda>it. \<not> (\<not> selSystem (systems r ! nat (sysIndex it))
                                  \<or> \<not> selObsType (systems r ! nat (sysIndex it)) ! nat (obsTypeIndex it)
                                  \<or> \<not> isSatSelected r (sysIndex it) (SatObsData.satellite it)))
                         (epochObs r)
                  else epochObs r);
          r1 = r\<lparr>epochObs := sortObs kept\<rparr>
      in (epochObs r1 \<noteq> [], r1))"

text \<open>An observation record of the given system index, satellite and observable index,
  for the concrete runs.\<close>

definition obsRec :: "int \<Rightarrow> int \<Rightarrow> int \<Rightarrow> SatObsData" where
  "obsRec sx sat ox =
     \<lparr>obsTimeTag = 100, sysIndex = sx, satellite = sat, obsTypeIndex = ox, obsValue = 1,
      lossOfLock = 0, strength = 5\<rparr>"

section \<open>Epoch acquisition (GNSSdataFromOSP.cpp)\<close>

text \<open>The body of the loop that \<open>acqEpochData\<close> runs over \<open>chSatObs\<close> when a MID 7 message
  closes the epoch: the four \<open>saveObsData\<close> calls for one channel, with the observables
  converted and, when requested, corrected by the clock bias.\<close>

definition epochObsCalls :: "bool \<Rightarrow> real \<Rightarrow> real \<Rightarrow> ChannelObs \<Rightarrow> obsCall list" where
  "epochObsCalls applyBias epochClkBias epochClkDrift it =
     (let psr = psedrng it;
          c1c = (if applyBias \<and> psr \<noteq> 0 then psr - epochClkBias * C1CADJ else psr);
          cph = carrPh it * L1WLINV;
          l1c = (if applyBias \<and> cph \<noteq> 0 then cph - epochClkBias * L1CADJ else cph);
          cfq = carrFq it * L1WLINV;
          d1c = (if applyBias \<and> cfq \<noteq> 0 then cfq - epochClkDrift else cfq)
      in [(chSystem it, satPrn it, ''C1C'', c1c, limitOl it, strgIdx it, timeT it),
          (chSystem it, satPrn it, ''L1C'', l1c, limitOl it, strgIdx it, timeT it),
          (chSystem it, satPrn it, ''D1C'', d1c, limitOl it, strgIdx it, timeT it),
          (chSystem it, satPrn it, ''S1C'', signalStrg it, limitOl it, strgIdx it,
           timeT it)])"

text \<open>The whole loop: the calls of all channels in the order of \<open>chSatObs\<close>.\<close>

definition acqEpochData_save ::
  "bool \<Rightarrow> real \<Rightarrow> real \<Rightarrow> ChannelObs list \<Rightarrow> RinexData \<Rightarrow> RinexData" where
  "acqEpochData_save applyBias epochClkBias epochClkDrift chSatObs rinex =
     saveObsCalls (concat (map (epochObsCalls applyBias epochClkBias epochClkDrift) chSatObs)) rinex"

text \<open>A header with GPS and the four observables of the receiver, and a channel whose
  pseudorange, phase and frequency are all missing.\<close>

definition rinexG4 :: RinexData where
  "rinexG4 =
     \<lparr>systems = [\<lparr>system = CHR ''G'', selSystem = True,
                   obsType = [''C1C'', ''L1C'', ''D1C'', ''S1C''],
                   selObsType = [True, True, True, True], selSat = []\<rparr>],
      epochTimeTag = 0, epochObs = [], epochNav = [],
      applyObsFilter = False, applyNavFilter = False, selectedSats = []\<rparr>"

definition chMissing :: ChannelObs where
  "chMissing = \<lparr>chSystem = CHR ''G'', satPrn = 5, psedrng = 0, carrPh = 0, carrFq = 0,
                signalStrg = 30, limitOl = 0, strgIdx = 5, timeT = 100\<rparr>"

text \<open>The observable type and the value that a \<open>saveObsData\<close> call passes.\<close>

fun callObsType :: "obsCall \<Rightarrow> string" where
  "callObsType (sys, sat, obsT, val, lol, strg, tTag) = obsT"

fun callValue :: "obsCall \<Rightarrow> real" where
  "callValue (sys, sat, obsT, val, lol, strg, tTag) = val"

text \<open>\<open>setFilter\<close> followed by \<open>filterObsData\<close>, as before an epoch is printed: the epoch
  store that is left, or \<open>None\<close> when \<open>setFilter\<close> throws.\<close>

definition filteredStore :: "string list \<Rightarrow> string list \<Rightarrow> RinexData \<Rightarrow> SatObsData list option" where
  "filteredStore selSatList selObsList r =
     map_option (\<lambda>(coherent, r1). epochObs (snd (filterObsData r1)))
       (setFilter selSatList selObsList r)"

section \<open>Epoch header of the RINEX 2.10 observation writer (RinexData.cpp)\<close>

text \<open>The macro \<open>DIFFERENT_SAT\<close> of \<open>printObsEpoch\<close>, for a record and the one before it.\<close>

definition DIFFERENT_SAT :: "SatObsData \<Rightarrow> SatObsData \<Rightarrow> bool" where
  "DIFFERENT_SAT prev it =
     (sysIndex prev \<noteq> sysIndex it \<or> SatObsData.satellite prev \<noteq> SatObsData.satellite it)"

text \<open>The loop that counts \<open>nSatsEpoch\<close>.\<close>

fun countSats :: "SatObsData \<Rightarrow> SatObsData list \<Rightarrow> nat \<Rightarrow> nat" where
  "countSats prev [] n = n"
| "countSats prev (it # rest) n =
     countSats it rest (if DIFFERENT_SAT prev it then n + 1 else n)"

definition newline :: char where
  "newline = CHR 0x0A"

text \<open>\<open>fprintf (out, "%1c%02d", systems[it->sysIndex].system, it->satellite)\<close>.\<close>

definition printSat :: "RinexData \<Rightarrow> SatObsData \<Rightarrow> string" where
  "printSat r it = system (systems r ! nat (sysIndex it)) # printf_02d (SatObsData.satellite it)"

text \<open>The loop that appends the satellites after the first one. \<open>anInt\<close> is the number of
  satellites printed, \<open>clk\<close> the text that \<open>%12.9f\<close> gives for \<open>epochClkOffset\<close>, \<open>out\<close> the
  text printed so far.\<close>

fun printSats ::
  "RinexData \<Rightarrow> string \<Rightarrow> SatObsData \<Rightarrow> SatObsData list \<Rightarrow> nat \<Rightarrow> bool \<Rightarrow> string \<Rightarrow>
     string \<times> nat \<times> bool" where
  "printSats r clk prev [] anInt clkPrinted out = (out, anInt, clkPrinted)"
| "printSats r clk prev (it # rest) anInt clkPrinted out =
     (if DIFFERENT_SAT prev it then
        (let out1 = (if anInt mod 12 = 0 then out @ newline # printf_c 32 (CHR '' '') else out);
             out2 = out1 @ printSat r it
         in if anInt + 1 = 12 then printSats r clk it rest (anInt + 1) True (out2 @ clk)
            else printSats r clk it rest (anInt + 1) clkPrinted out2)
      else printSats r clk it rest anInt clkPrinted out)"

text \<open>The loop that fills the line: \<open>while ((anInt % 12) != 0)\<close>.\<close>

function fillLine :: "nat \<Rightarrow> string \<Rightarrow> string" where
  "fillLine anInt out =
     (if anInt mod 12 \<noteq> 0 then fillLine (anInt + 1) (out @ printf_c 3 (CHR '' '')) else out)"
  by pat_completeness auto
termination
  by (relation "measure (\<lambda>(anInt, out). (12 - anInt mod 12) mod 12)") (auto simp: mod_Suc)

declare fillLine.simps [simp del]

text \<open>The part of \<open>printObsEpoch\<close> for version 2.10 and the epoch flags 0, 1 and 6 that
  prints the first line of the epoch and its continuation lines, from the count of the
  satellites to the end of line before the measurement lines. The store is filtered,
  sorted and not empty there: the function has returned before otherwise.
  \<open>timeBuffer\<close> is the text that \<open>formatGPStime\<close> has written.\<close>

definition printObsEpoch_V210_header :: "RinexData \<Rightarrow> string \<Rightarrow> int \<Rightarrow> string \<Rightarrow> string" where
  "printObsEpoch_V210_header r timeBuffer epochFlag clk =
     (case epochObs r of
        [] \<Rightarrow> []
      | first # rest \<Rightarrow>
          (let nSatsEpoch = countSats first rest 1;
               out0 = timeBuffer @ ''  '' @ printf_d 1 epochFlag @ printf_d 3 (int nSatsEpoch);
               out1 = out0 @ printSat r first;
               (out2, anInt, clkPrinted) = printSats r clk first rest 1 False out1;
               out3 = fillLine anInt out2
           in if clkPrinted then out3 @ [newline] else out3 @ clk @ [newline]))"

text \<open>The satellites of a sorted store: the first record and every record whose
  satellite differs from the one of the record before.\<close>

fun newSats :: "SatObsData \<Rightarrow> SatObsData list \<Rightarrow> SatObsData list" where
  "newSats prev [] = []"
| "newSats prev (it # rest) =
     (if DIFFERENT_SAT prev it then it # newSats it rest else newSats it rest)"

text \<open>The layout as the specification words it, for the list of the satellite triples
  of the epoch: every continuation line starts with 32 blanks and holds up to twelve
  triples, filled with blanks to twelve.\<close>

function continuationLines :: "string list \<Rightarrow> string" where
  "continuationLines ts =
     (if ts = [] then []
      else newline # replicate 32 (CHR '' '') @ concat (take 12 ts)
             @ replicate (3 * (12 - length (take 12 ts))) (CHR '' '')
             @ continuationLines (drop 12 ts))"
  by pat_completeness auto
termination
  by (relation "measure length") auto

declare continuationLines.simps [simp del]

text \<open>The first line holds the time, the flag, the count, the first twelve triples
  filled with blanks to twelve, and the clock offset; the continuation lines follow.\<close>

definition epochHeaderLayout :: "string \<Rightarrow> int \<Rightarrow> string \<Rightarrow> string list \<Rightarrow> string" where
  "epochHeaderLayout timeBuffer epochFlag clk ts =
     timeBuffer @ ''  '' @ printf_d 1 epochFlag @ printf_d 3 (int (length ts))
       @ concat (take 12 ts) @ replicate (3 * (12 - length (take 12 ts))) (CHR '' '')
       @ clk @ continuationLines (drop 12 ts) @ [newline]"

text \<open>The lines of a text, each without its end of line.\<close>

fun splitLines :: "string \<Rightarrow> string \<Rightarrow> string list" where
  "splitLines [] line = (if line = [] then [] else [line])"
| "splitLines (c # cs) line =
     (if c = newline then line # splitLines cs [] else splitLines cs (line @ [c]))"

text \<open>An epoch of GPS satellites 1 to \<open>n\<close> with one observable each, and the texts of a
  time and of a clock offset.\<close>

definition epochOfSats :: "nat \<Rightarrow> RinexData" where
  "epochOfSats n = rinexGR\<lparr>epochObs := map (\<lambda>k. obsRec 0 (int k) 0) [1..<Suc n]\<rparr>"

definition timeText :: string where
  "timeText = '' 14 07 06 12 00  0.0000000''"

definition clkText :: string where
  "clkText = '' 0.000000123''"

text \<open>Two functions used to reason about the loops: the loop of \<open>printSats\<close> on the list
  of the triples to print, and the end of the header after that loop.\<close>

fun printTriples :: "string \<Rightarrow> string list \<Rightarrow> nat \<Rightarrow> bool \<Rightarrow> string \<Rightarrow> string \<times> nat \<times> bool" where
  "printTriples clk [] anInt clkPrinted out = (out, anInt, clkPrinted)"
| "printTriples clk (t # ts) anInt clkPrinted out =
     (let out2 = (if anInt mod 12 = 0 then out @ newline # printf_c 32 (CHR '' '') else out) @ t
      in if anInt + 1 = 12 then printTriples clk ts (anInt + 1) True (out2 @ clk)
         else printTriples clk ts (anInt + 1) clkPrinted out2)"

fun endHeader :: "string \<Rightarrow> string \<times> nat \<times> bool \<Rightarrow> string" where
  "endHeader clk (out, anInt, clkPrinted) =
     (if clkPrinted then fillLine anInt out @ [newline]
      else fillLine anInt out @ clk @ [newline])"

section \<open>GPS navigation subframes from MID 8 messages (GNSSdataFromOSP.cpp)\<close>

text \<open>\<open>OSPMessage::getUInt\<close>: the exception thrown is the left result. The cursor and the
  payload length are \<open>unsigned int\<close>.\<close>

definition getUInt :: "OSPMessage \<Rightarrow> int + (32 word \<times> OSPMessage)" where
  "getUInt m =
     (if payloadLength m \<le> cursor m + 3 then Inl 3
      else Inr (push_bit 24 (ucast (payload m ! unat (cursor m)))
                  OR push_bit 16 (ucast (payload m ! unat (cursor m + 1)))
                  OR push_bit 8 (ucast (payload m ! unat (cursor m + 2)))
                  OR ucast (payload m ! unat (cursor m + 3)),
                m\<lparr>cursor := cursor m + 4\<rparr>))"

text \<open>The loop \<open>for (int i=0; i<10; i++) wd[i] = message.getUInt()\<close>, for any number of
  words. An exception ends it.\<close>

fun getUInts :: "nat \<Rightarrow> OSPMessage \<Rightarrow> (int + 32 word list) \<times> OSPMessage" where
  "getUInts 0 m = (Inr [], m)"
| "getUInts (Suc n) m =
     (case getUInt m of
        Inl e \<Rightarrow> (Inl e, m)
      | Inr (w, m1) \<Rightarrow>
          (case getUInts n m1 of
             (Inl e, m2) \<Rightarrow> (Inl e, m2)
           | (Inr ws, m2) \<Rightarrow> (Inr (w # ws), m2)))"

definition MAXCHANNELS :: nat where
  "MAXCHANNELS = 32"

definition MAXSUBFR :: nat where
  "MAXSUBFR = 5"

definition parityBitMask :: "32 word list" where
  "parityBitMask = [0xBB1F3480, 0x5D8F9A40, 0xAEC7CD00, 0x5763E680, 0x6BB1F340, 0x8B7A89C0]"

text \<open>\<open>struct SubframeData\<close> and the member \<open>subfrmCh [MAXCHANNELS][MAXSUBFR]\<close> of
  \<open>class GNSSdataFromOSP\<close>.\<close>

record SubframeData =
  sv :: int
  words :: "32 word list"

record GNSSdataFromOSP =
  subfrmCh :: "SubframeData list list"

text \<open>\<open>GNSSdataFromOSP::bitsSet\<close>.\<close>

definition bitsSet :: "32 word \<Rightarrow> 32 word" where
  "bitsSet lw = foldl (\<lambda>count i. count + (drop_bit i lw AND 1)) 0 [0..<32]"

text \<open>\<open>GNSSdataFromOSP::checkGPSparity\<close>.\<close>

definition checkGPSparity :: "32 word \<Rightarrow> bool" where
  "checkGPSparity d =
     (let toCheck = (if d AND 0x40000000 \<noteq> 0
                     then (d AND 0xC0000000) OR (NOT d AND 0x3FFFFFFF) else d);
          parity = foldl (\<lambda>parity i.
                      parity OR push_bit (5 - i) (bitsSet (parityBitMask ! i AND toCheck) mod 2))
                     0 [0..<6]
      in parity = d AND 0x3F)"

text \<open>The 24 data bits of a word of the message: the statement in the loop that removes
  the parity.\<close>

definition removeParity :: "32 word \<Rightarrow> 32 word" where
  "removeParity w =
     (if w AND 0x40000000 = 0 then drop_bit 6 w AND 0xFFFFFF
      else NOT (drop_bit 6 w) AND 0xFFFFFF)"

text \<open>\<open>GNSSdataFromOSP::allGPSEphemReceived\<close>.\<close>

definition allGPSEphemReceived :: "GNSSdataFromOSP \<Rightarrow> nat \<Rightarrow> bool" where
  "allGPSEphemReceived st ch =
     (let allReceived = (sv (subfrmCh st ! ch ! 0) = sv (subfrmCh st ! ch ! 1)
                          \<and> sv (subfrmCh st ! ch ! 0) = sv (subfrmCh st ! ch ! 2));
          iodcLSB = drop_bit 16 (words (subfrmCh st ! ch ! 0) ! 7) AND 0xFF;
          allReceived1 = (allReceived
                           \<and> iodcLSB = (drop_bit 16 (words (subfrmCh st ! ch ! 1) ! 2) AND 0xFF));
          allReceived2 = (allReceived1
                           \<and> iodcLSB = (drop_bit 16 (words (subfrmCh st ! ch ! 2) ! 9) AND 0xFF))
      in allReceived2)"

text \<open>The packing of the words of one subframe into 15 items as in MID 15: the three
  items of the group \<open>j\<close> of two words, and the items of a subframe with the two changes
  made for the first group.\<close>

definition packItem0 :: "32 word list \<Rightarrow> nat \<Rightarrow> 32 word" where
  "packItem0 ws j = drop_bit 8 (ws ! (j * 2)) AND 0xFFFF"

definition packItem1 :: "32 word list \<Rightarrow> nat \<Rightarrow> 32 word" where
  "packItem1 ws j =
     push_bit 8 (ws ! (j * 2) AND 0xFF) OR (drop_bit 16 (ws ! (j * 2 + 1)) AND 0xFF)"

definition packItem2 :: "32 word list \<Rightarrow> nat \<Rightarrow> 32 word" where
  "packItem2 ws j = ws ! (j * 2 + 1) AND 0xFFFF"

definition packSubframe :: "int \<Rightarrow> 32 word list \<Rightarrow> 32 word list" where
  "packSubframe svNum ws =
     [of_int svNum, packItem1 ws 0 AND 0xFF, packItem2 ws 0,
      packItem0 ws 1, packItem1 ws 1, packItem2 ws 1,
      packItem0 ws 2, packItem1 ws 2, packItem2 ws 2,
      packItem0 ws 3, packItem1 ws 3, packItem2 ws 3,
      packItem0 ws 4, packItem1 ws 4, packItem2 ws 4]"

definition packNavW :: "GNSSdataFromOSP \<Rightarrow> nat \<Rightarrow> int \<Rightarrow> 32 word list" where
  "packNavW st ch svNum =
     packSubframe svNum (words (subfrmCh st ! ch ! 0))
       @ packSubframe svNum (words (subfrmCh st ! ch ! 1))
       @ packSubframe svNum (words (subfrmCh st ! ch ! 2))"

text \<open>\<open>GNSSdataFromOSP::extractGPSEphemeris\<close>: first the mantissas \<open>bom\<close>, as values of
  \<open>int\<close>, then the function with its two checks; \<open>None\<close> is the result false.\<close>

definition extractGPSEphemeris_bom :: "32 word list \<Rightarrow> int list list" where
  "extractGPSEphemeris_bom navW =
     (let iodcLSB = navW ! 10 AND 0xFF;
          iode1 = drop_bit 8 (navW ! (15 + 3)) AND 0xFF;
          iode2 = navW ! (30 + 13) AND 0xFF
      in map (map sint)
        [[navW ! 11,
          getTwosComplement (push_bit 14 (navW ! 13 AND 0x00FF) OR (drop_bit 2 (navW ! 14) AND 0x3FFF)) 22,
          getTwosComplement (push_bit 8 (navW ! 12 AND 0x00FF) OR (drop_bit 8 (navW ! 13) AND 0x00FF)) 16,
          getTwosComplement (drop_bit 8 (navW ! 12) AND 0x00FF) 8],
         [iode1,
          getTwosComplement (push_bit 8 (navW ! (15 + 3) AND 0x00FF)
            OR (drop_bit 8 (navW ! (15 + 4)) AND 0x00FF)) 16,
          getTwosComplement (push_bit 8 (navW ! (15 + 4) AND 0x00FF)
            OR (drop_bit 8 (navW ! (15 + 5)) AND 0x00FF)) 16,
          getTwosComplement (push_bit 24 (navW ! (15 + 5) AND 0x00FF)
            OR push_bit 8 (navW ! (15 + 6) AND 0xFFFF)
            OR (drop_bit 8 (navW ! (15 + 7)) AND 0x00FF)) 32],
         [getTwosComplement (push_bit 8 (navW ! (15 + 7) AND 0x00FF)
            OR (drop_bit 8 (navW ! (15 + 8)) AND 0x00FF)) 16,
          push_bit 24 (navW ! (15 + 8) AND 0x00FF) OR push_bit 8 (navW ! (15 + 9) AND 0xFFFF)
            OR (drop_bit 8 (navW ! (15 + 10)) AND 0x00FF),
          getTwosComplement (push_bit 8 (navW ! (15 + 10) AND 0x00FF)
            OR (drop_bit 8 (navW ! (15 + 11)) AND 0x00FF)) 16,
          push_bit 24 (navW ! (15 + 11) AND 0x00FF) OR push_bit 8 (navW ! (15 + 12) AND 0xFFFF)
            OR (drop_bit 8 (navW ! (15 + 13)) AND 0x00FF)],
         [push_bit 8 (navW ! (15 + 13) AND 0x00FF) OR (drop_bit 8 (navW ! (15 + 14)) AND 0x00FF),
          getTwosComplement (navW ! (30 + 3)) 16,
          getTwosComplement (push_bit 16 (navW ! (30 + 4) AND 0xFFFF) OR (navW ! (30 + 5) AND 0xFFFF)) 32,
          getTwosComplement (navW ! (30 + 6)) 16],
         [getTwosComplement (push_bit 16 (navW ! (30 + 7) AND 0xFFFF) OR (navW ! (30 + 8) AND 0xFFFF)) 32,
          getTwosComplement (navW ! (30 + 9)) 16,
          getTwosComplement (push_bit 16 (navW ! (30 + 10) AND 0xFFFF) OR (navW ! (30 + 11) AND 0xFFFF)) 32,
          getTwosComplement (push_bit 8 (navW ! (30 + 12) AND 0xFFFF)
            OR (drop_bit 8 (navW ! (30 + 13)) AND 0x00FF)) 24],
         [getTwosComplement (drop_bit 2 (navW ! (30 + 14)) AND 0x03FFF) 14,
          drop_bit 4 (navW ! 3) AND 0x0003,
          (drop_bit 6 (navW ! 3) AND 0x03FF) + 1024,
          drop_bit 7 (navW ! 4) AND 0x0001],
         [navW ! 3 AND 0x000F,
          drop_bit 10 (navW ! 4) AND 0x003F,
          getTwosComplement (drop_bit 8 (navW ! 10) AND 0x00FF) 8,
          iodcLSB OR (navW ! 4 AND 0x0300)],
         [(push_bit 9 (navW ! 1 AND 0x00FF) OR (drop_bit 7 (navW ! 2) AND 0x01FF)) * 600,
          drop_bit 7 (navW ! (15 + 14)) AND 0x0001,
          0,
          iode2]])"

definition extractGPSEphemeris :: "32 word list \<Rightarrow> (32 word \<times> int list list) option" where
  "extractGPSEphemeris navW =
     (let svId = navW ! 0 AND 0xFF
      in if \<not> (svId = (navW ! 15 AND 0xFF) \<and> svId = (navW ! 30 AND 0xFF)) then None
         else
           let iodcLSB = navW ! 10 AND 0xFF;
               iode1 = drop_bit 8 (navW ! (15 + 3)) AND 0xFF;
               iode2 = navW ! (30 + 13) AND 0xFF
           in if \<not> (iode1 = iode2 \<and> iode1 = iodcLSB) then None
              else Some (svId, extractGPSEphemeris_bom navW))"

text \<open>The statements of \<open>getMID8GPSNavData\<close> that store the satellite number and the
  words in \<open>subfrmCh[ch][subfrmID]\<close>, and the loop that clears the storage of the
  channel.\<close>

definition storeSubframe ::
  "GNSSdataFromOSP \<Rightarrow> nat \<Rightarrow> nat \<Rightarrow> int \<Rightarrow> 32 word list \<Rightarrow> GNSSdataFromOSP" where
  "storeSubframe st ch idx svNum wd =
     st\<lparr>subfrmCh := (subfrmCh st)[ch := (subfrmCh st ! ch)[idx := \<lparr>sv = svNum, words = wd\<rparr>]]\<rparr>"

definition clearChannel :: "GNSSdataFromOSP \<Rightarrow> nat \<Rightarrow> GNSSdataFromOSP" where
  "clearChannel st ch =
     st\<lparr>subfrmCh := (subfrmCh st)[ch := map (\<lambda>s. s\<lparr>sv := 0\<rparr>) (subfrmCh st ! ch)]\<rparr>"

text \<open>A call of \<open>saveNavData\<close>, by its arguments.\<close>

type_synonym navCall = "char \<times> int \<times> real list list \<times> real"

text \<open>\<open>GNSSdataFromOSP::getMID8GPSNavData\<close> for the channel \<open>ch\<close> and the satellite number
  \<open>svNum\<close> (the parameter \<open>sv\<close>), which the caller has found in range. The result is the
  boolean returned, the message, the receiver data, the RINEX data, and the calls of
  \<open>saveNavData\<close> made, none or one.\<close>

definition getMID8GPSNavData ::
  "nat \<Rightarrow> int \<Rightarrow> OSPMessage \<Rightarrow> GNSSdataFromOSP \<Rightarrow> RinexData \<Rightarrow>
     bool \<times> OSPMessage \<times> GNSSdataFromOSP \<times> RinexData \<times> navCall list" where
  "getMID8GPSNavData ch svNum m st rinex =
     (case getUInts 10 m of
        (Inl e, m1) \<Rightarrow> (False, m1, st, rinex, [])
      | (Inr wd0, m1) \<Rightarrow>
          if \<not> list_all checkGPSparity wd0 then (False, m1, st, rinex, [])
          else
            let wd = map removeParity wd0;
                subfrmID = drop_bit 2 (wd ! 1) AND 0x07;
                pgID = drop_bit 16 (wd ! 2) AND 0x3F
            in if (0 < subfrmID \<and> subfrmID < 4) \<or> (subfrmID = 4 \<and> pgID = 56) then
                 let idx = unat (subfrmID - 1);
                     st1 = storeSubframe st ch idx svNum wd
                 in if allGPSEphemReceived st1 ch then
                      let navW = packNavW st1 ch svNum;
                          (rinex1, calls) =
                            (case extractGPSEphemeris navW of
                               Some (sat, bom) \<Rightarrow>
                                 (let (tTag, bo) = scaleGPSEphemeris bom
                                  in (snd (saveNavData (CHR ''G'') (sint sat) bo tTag rinex),
                                      [(CHR ''G'', sint sat, bo, tTag)]))
                             | None \<Rightarrow> (rinex, []));
                          st2 = clearChannel st1 ch
                      in (True, m1, st2, rinex1, calls)
                    else (True, m1, st1, rinex, [])
               else (True, m1, st, rinex, []))"

text \<open>A sequence of MID 8 messages of one channel and satellite, with the calls of
  \<open>saveNavData\<close> collected.\<close>

fun feedMID8 ::
  "nat \<Rightarrow> int \<Rightarrow> OSPMessage list \<Rightarrow> GNSSdataFromOSP \<Rightarrow> RinexData \<Rightarrow>
     GNSSdataFromOSP \<times> RinexData \<times> navCall list" where
  "feedMID8 ch svNum [] st rinex = (st, rinex, [])"
| "feedMID8 ch svNum (m # ms) st rinex =
     (case getMID8GPSNavData ch svNum m st rinex of
        (ok, m1, st1, rinex1, calls1) \<Rightarrow>
          (case feedMID8 ch svNum ms st1 rinex1 of
             (st2, rinex2, calls2) \<Rightarrow> (st2, rinex2, calls1 @ calls2)))"

text \<open>What the words of a message say: the subframe number in the second word, and the
  issue of data that the completion rule compares, which is the low byte of the IODC
  in subframe 1 and the IODE in subframes 2 and 3.\<close>

definition subframeOf :: "32 word list \<Rightarrow> 32 word" where
  "subframeOf wd0 = drop_bit 2 (removeParity (wd0 ! 1)) AND 0x07"

definition issueOfData :: "32 word list \<Rightarrow> 32 word" where
  "issueOfData wd0 =
     (if subframeOf wd0 = 1 then drop_bit 16 (removeParity (wd0 ! 7)) AND 0xFF
      else if subframeOf wd0 = 2 then drop_bit 16 (removeParity (wd0 ! 2)) AND 0xFF
      else drop_bit 16 (removeParity (wd0 ! 9)) AND 0xFF)"

text \<open>The receiver data after \<open>setTblValues\<close>, all zero, and a MID 8 message of 43 bytes
  with the given words, the cursor after the channel and the satellite number; the
  bytes of the buffer after the message are left out.\<close>

definition initialOSP :: GNSSdataFromOSP where
  "initialOSP = \<lparr>subfrmCh = replicate 32 (replicate 5 \<lparr>sv = 0, words = replicate 10 0\<rparr>)\<rparr>"

definition bytesOf :: "32 word \<Rightarrow> 8 word list" where
  "bytesOf w = [ucast (drop_bit 24 w), ucast (drop_bit 16 w), ucast (drop_bit 8 w), ucast w]"

definition mid8Message :: "8 word \<Rightarrow> 8 word \<Rightarrow> 32 word list \<Rightarrow> OSPMessage" where
  "mid8Message ch svNum ws =
     \<lparr>payload = [8, ch, svNum] @ concat (map bytesOf ws), payloadLength = 43, cursor = 3\<rparr>"

text \<open>Subframes 1, 2 and 3 with correct parity and the issue of data 92, a subframe 1
  with the issue of data 93, and the messages that carry them on channel 4 for the
  satellite 7.\<close>

definition subframe1 :: "32 word list" where
  "subframe1 = [0x0400001C, 0x002D2904, 0x7BFF7769, 0x0400CCCE, 0x0401111B, 0x7BFEAABC,
                0x040199B8, 0x17048D29, 0x7BFDDDC7, 0x04026660]"

definition subframe2 :: "32 word list" where
  "subframe2 = [0x0400001C, 0x002D2A19, 0x68EF379E, 0x0400CCCE, 0x0401111B, 0x7BFEAABC,
                0x040199B8, 0x0401DDC9, 0x7BFDDDC7, 0x04026660]"

definition subframe3 :: "32 word list" where
  "subframe3 = [0x0400001C, 0x002D2B12, 0x7BFF7769, 0x0400CCCE, 0x0401111B, 0x7BFEAABC,
                0x040199B8, 0x0401DDC9, 0x7BFDDDC7, 0x1703C33F]"

definition subframe1_other :: "32 word list" where
  "subframe1_other = [0x0400001C, 0x002D2904, 0x7BFF7769, 0x0400CCCE, 0x0401111B, 0x7BFEAABC,
                      0x040199B8, 0x17448D24, 0x7BFDDDC7, 0x04026660]"

text \<open>The shape of \<open>subfrmCh\<close>, and a channel whose subframe slots are all empty.\<close>

definition wellFormed :: "GNSSdataFromOSP \<Rightarrow> bool" where
  "wellFormed st =
     (length (subfrmCh st) = MAXCHANNELS
      \<and> list_all (\<lambda>row. length row = MAXSUBFR) (subfrmCh st))"

definition emptyChannel :: "GNSSdataFromOSP \<Rightarrow> nat \<Rightarrow> bool" where
  "emptyChannel st ch = list_all (\<lambda>s. sv s = 0) (subfrmCh st ! ch)"

text \<open>The test of \<open>allGPSEphemReceived\<close> on the row of the channel, used to reason about
  it.\<close>

definition completeRow :: "SubframeData list \<Rightarrow> bool" where
  "completeRow row =
     (sv (row ! 0) = sv (row ! 1) \<and> sv (row ! 0) = sv (row ! 2)
      \<and> drop_bit 16 (words (row ! 0) ! 7) AND 0xFF = drop_bit 16 (words (row ! 1) ! 2) AND 0xFF
      \<and> drop_bit 16 (words (row ! 0) ! 7) AND 0xFF = drop_bit 16 (words (row ! 2) ! 9) AND 0xFF)"

section \<open>Properties of the observation and navigation stores\<close>

lemma saveObsData_tags:
  assumes "\<forall>x \<in> set (epochObs r). obsTimeTag x = epochTimeTag r"
  shows "\<forall>x \<in> set (epochObs (snd (saveObsData sys sat obsT val lol strg tTag r))).
           obsTimeTag x = epochTimeTag (snd (saveObsData sys sat obsT val lol strg tTag r))"
  using assms by (auto simp: saveObsData_def Let_def split: option.splits)

lemma saveObsCalls_tags:
  "\<forall>x \<in> set (epochObs r). obsTimeTag x = epochTimeTag r \<Longrightarrow>
   \<forall>x \<in> set (epochObs (saveObsCalls cs r)). obsTimeTag x = epochTimeTag (saveObsCalls cs r)"
proof (induction cs arbitrary: r)
  case Nil
  then show ?case by simp
next
  case (Cons c cs)
  obtain sys sat obsT val lol strg tTag where c: "c = (sys, sat, obsT, val, lol, strg, tTag)"
    by (cases c) auto
  have "\<forall>x \<in> set (epochObs (snd (saveObsCall c r))).
          obsTimeTag x = epochTimeTag (snd (saveObsCall c r))"
    unfolding c saveObsCall.simps by (rule saveObsData_tags) (rule Cons.prems)
  then show ?case by (simp add: Cons.IH)
qed

text \<open>
  C2. After any sequence of \<open>saveObsData\<close> calls that starts on an empty epoch store, all
  records of the store carry one time tag, the value of \<open>epochTimeTag\<close>. A call on the
  empty store sets that tag to its own time tag, and every record it stores carries it.
  A call on a non-empty store whose time tag differs from the epoch's returns false and
  leaves the state as it is.
\<close>

theorem saveObsData_one_time_tag:
  assumes "epochObs r0 = []"
  shows "(\<forall>x \<in> set (epochObs (saveObsCalls cs r0)).
            obsTimeTag x = epochTimeTag (saveObsCalls cs r0))
       \<and> (\<forall>x \<in> set (epochObs (saveObsCalls cs r0)).
            \<forall>y \<in> set (epochObs (saveObsCalls cs r0)). obsTimeTag x = obsTimeTag y)
       \<and> (epochObs (saveObsCalls cs r0) = [] \<longrightarrow>
            epochTimeTag (snd (saveObsData sys sat obsT val lol strg tTag (saveObsCalls cs r0)))
              = tTag)
       \<and> (epochObs (saveObsCalls cs r0) \<noteq> [] \<and> tTag \<noteq> epochTimeTag (saveObsCalls cs r0) \<longrightarrow>
            saveObsData sys sat obsT val lol strg tTag (saveObsCalls cs r0)
              = (False, saveObsCalls cs r0))"
proof -
  have inv: "\<forall>x \<in> set (epochObs (saveObsCalls cs r0)).
               obsTimeTag x = epochTimeTag (saveObsCalls cs r0)"
    by (rule saveObsCalls_tags) (simp add: assms)
  have first: "epochObs r = [] \<Longrightarrow>
      epochTimeTag (snd (saveObsData sys sat obsT val lol strg tTag r)) = tTag" for r
    by (simp add: saveObsData_def Let_def split: option.splits)
  have differs: "epochObs r \<noteq> [] \<Longrightarrow> tTag \<noteq> epochTimeTag r \<Longrightarrow>
      saveObsData sys sat obsT val lol strg tTag r = (False, r)" for r
    by (auto simp: saveObsData_def Let_def)
  from inv first differs show ?thesis by simp
qed

theorem saveObsData_one_time_tag_witness:
  "epochObs rinexGR = []
   \<and> map obsTimeTag (epochObs (saveObsCalls
        [(CHR ''G'', 5, ''C1C'', 20000000, 0, 7, 100),
         (CHR ''G'', 5, ''L1C'', 3, 0, 7, 200),
         (CHR ''R'', 2, ''L1C'', 4, 0, 7, 100)] rinexGR)) = [100, 100]
   \<and> saveObsData (CHR ''G'') 5 ''L1C'' 3 0 7 200 (saveObsCalls
        [(CHR ''G'', 5, ''C1C'', 20000000, 0, 7, 100),
         (CHR ''G'', 5, ''L1C'', 3, 0, 7, 200),
         (CHR ''R'', 2, ''L1C'', 4, 0, 7, 100)] rinexGR)
     = (False, saveObsCalls
        [(CHR ''G'', 5, ''C1C'', 20000000, 0, 7, 100),
         (CHR ''G'', 5, ''L1C'', 3, 0, 7, 200),
         (CHR ''R'', 2, ''L1C'', 4, 0, 7, 100)] rinexGR)"
  using saveObsData_one_time_tag [of rinexGR
        "[(CHR ''G'', 5, ''C1C'', 20000000, 0, 7, 100),
          (CHR ''G'', 5, ''L1C'', 3, 0, 7, 200),
          (CHR ''R'', 2, ''L1C'', 4, 0, 7, 100)]" "CHR ''G''" 5 "''L1C''" 3 0 7 200]
  by (simp add: rinexGR_def sysG_def sysR_def saveObsData_def sysInx_def Let_def)

text \<open>
  C3. \<open>saveNavData\<close> inserts a record only if the store holds no record with the same
  time tag, system and satellite. When such a record exists the call returns false and
  the state is unchanged; otherwise it returns true and appends the record. A store whose
  keys are pairwise distinct keeps them so.
\<close>

theorem saveNavData_unique_key:
  "((\<exists>it \<in> set (epochNav r). navKey it = (tTag, sys, sat)) \<longrightarrow>
      saveNavData sys sat bo tTag r = (False, r))
   \<and> (\<not> (\<exists>it \<in> set (epochNav r). navKey it = (tTag, sys, sat)) \<longrightarrow>
      saveNavData sys sat bo tTag r =
        (True, r\<lparr>epochNav := epochNav r @
           [\<lparr>navTimeTag = tTag, systemId = sys, satellite = sat, broadcastOrbit = bo\<rparr>]\<rparr>))
   \<and> (distinct (map navKey (epochNav r)) \<longrightarrow>
      distinct (map navKey (epochNav (snd (saveNavData sys sat bo tTag r)))))"
  by (auto simp: saveNavData_def navKey_def list_ex_iff)

theorem saveNavData_unique_key_witness:
  "saveNavData (CHR ''G'') 7 bo0 1000 rinexGR =
     (True, rinexGR\<lparr>epochNav :=
        [\<lparr>navTimeTag = 1000, systemId = CHR ''G'', satellite = 7, broadcastOrbit = bo0\<rparr>]\<rparr>)
   \<and> saveNavData (CHR ''G'') 7 bo0 1000 (snd (saveNavData (CHR ''G'') 7 bo0 1000 rinexGR)) =
     (False, snd (saveNavData (CHR ''G'') 7 bo0 1000 rinexGR))
   \<and> distinct (map navKey (epochNav (snd (saveNavData (CHR ''G'') 7 bo0 1000
        (snd (saveNavData (CHR ''G'') 7 bo0 1000 rinexGR))))))"
  using saveNavData_unique_key [of rinexGR 1000 "CHR ''G''" 7 bo0]
    saveNavData_unique_key [of "snd (saveNavData (CHR ''G'') 7 bo0 1000 rinexGR)"
      1000 "CHR ''G''" 7 bo0]
  by (simp add: saveNavData_def navKey_def rinexGR_def)

text \<open>
  C9. The result of \<open>saveObsData\<close> reports epoch membership only. When the time tag given
  is the one of the current epoch (the store is empty, or \<open>epochTimeTag\<close> equals it) and
  the system is not in the header, or the observable type is not among those of the
  system, the call returns true and the epoch store is left as it was.
\<close>

theorem saveObsData_true_without_storing:
  assumes "epochObs r = [] \<or> epochTimeTag r = tTag"
    and "sysInx r sys < 0 \<or> obsT \<notin> set (obsType (systems r ! nat (sysInx r sys)))"
  shows "fst (saveObsData sys sat obsT val lol strg tTag r)
       \<and> epochObs (snd (saveObsData sys sat obsT val lol strg tTag r)) = epochObs r"
proof -
  have none: "obsT \<notin> set ts \<Longrightarrow> findObsType ts obsT ox = None" for ts ox
    by (induction ts arbitrary: ox) auto
  from assms show ?thesis
    by (auto simp: saveObsData_def Let_def none split: option.splits)
qed

theorem saveObsData_true_without_storing_witness:
  "(epochObs rinexGR = [] \<or> epochTimeTag rinexGR = 100)
   \<and> (sysInx rinexGR (CHR ''G'') < 0
        \<or> ''D1C'' \<notin> set (obsType (systems rinexGR ! nat (sysInx rinexGR (CHR ''G'')))))
   \<and> fst (saveObsData (CHR ''G'') 5 ''D1C'' 12 0 7 100 rinexGR)
   \<and> epochObs (snd (saveObsData (CHR ''G'') 5 ''D1C'' 12 0 7 100 rinexGR)) = []"
  using saveObsData_true_without_storing [of rinexGR 100 "CHR ''G''" "''D1C''" 5 12 0 7]
  by (simp add: rinexGR_def sysG_def sysR_def sysInx_def)

section \<open>Properties of the bit primitives\<close>

lemma bit_shift_or_low:
  fixes bits x :: "32 word"
  shows "bit (push_bit 1 bits OR (x AND 1)) j \<longleftrightarrow>
           (if j = 0 then bit x 0 else j < 32 \<and> bit bits (j - 1))"
  unfolding bit_or_iff bit_and_iff bit_push_bit_iff bit_1_iff
  by (auto simp: bit_imp_le_length dest: bit_imp_le_length)

lemma getBits_loop_upper_bits:
  "(\<forall>j\<ge>m. \<not> bit bits j) \<Longrightarrow> \<forall>j\<ge>m + k. \<not> bit (getBits_loop s p k bits) j"
proof (induction k arbitrary: bits m)
  case 0
  then show ?case by simp
next
  case (Suc k)
  have "\<forall>j\<ge>Suc m. \<not> bit (push_bit 1 bits OR
          (drop_bit ((p + k) mod 32) (s ! ((p + k) div 32)) AND 1)) j"
    unfolding bit_shift_or_low using Suc.prems by auto
  from Suc.IH [OF this] show ?case by simp
qed

lemma upper_bits_clear_less:
  fixes w :: "32 word"
  assumes "\<forall>j\<ge>n. \<not> bit w j"
  shows "unat w < 2 ^ n"
proof -
  have "take_bit n w = w"
  proof (rule bit_word_eqI)
    fix j
    assume "j < LENGTH(32)"
    show "bit (take_bit n w) j = bit w j"
      using assms by (cases "j < n") (auto simp: bit_take_bit_iff)
  qed
  then have "unat w = take_bit n (unat w)"
    by (metis unsigned_take_bit_eq)
  then show ?thesis
    by (metis take_bit_nat_less_exp)
qed

lemma getBits_less: "unat (getBits s p n) < 2 ^ n"
  unfolding getBits_def
  using getBits_loop_upper_bits [of 0 0 n s p] by (intro upper_bits_clear_less) simp

lemma unat_one_shifted:
  assumes "n < 32"
  shows "unat (push_bit n 1 :: 32 word) = 2 ^ n"
proof -
  have "(2::nat) ^ n < 2 ^ 32"
    using assms by (intro power_strict_increasing) auto
  then show ?thesis
    unfolding unsigned_push_bit_eq using assms by (simp add: take_bit_nat_eq_self)
qed

lemma sint_small:
  assumes "unat (x::32 word) < 2 ^ 31"
  shows "sint x = int (unat x)"
proof -
  have "int (unat x) < int (2 ^ 31)"
    using assms by (simp only: of_nat_less_iff)
  then have "int (unat x) < 2 ^ 31" by simp
  then have lt: "uint x < 2 ^ 31" by simp
  have ge: "- (2 ^ 31) \<le> uint x"
    by (rule order_trans [of _ 0]) simp_all
  have "signed_take_bit 31 (uint x) = uint x"
    using ge lt by (rule signed_take_bit_int_eq_self)
  then have "sint x = uint x" by (simp add: sint_uint)
  then show ?thesis by simp
qed

lemma getTwosComplement_small:
  assumes "1 \<le> n" "n \<le> 32" "unat x < 2 ^ (n - 1)"
  shows "getTwosComplement x n = x"
proof (cases "n = 32")
  case True
  then show ?thesis by (simp add: getTwosComplement_def)
next
  case False
  with assms have "n - 1 < 32" by simp
  then have "unat (push_bit (n - 1) 1 :: 32 word) = 2 ^ (n - 1)"
    by (rule unat_one_shifted)
  with assms have "x < push_bit (n - 1) 1"
    by (simp add: word_less_nat_alt)
  then show ?thesis by (simp add: getTwosComplement_def)
qed

lemma small_below_sign:
  assumes "1 \<le> n" "n \<le> 32" "unat (x::32 word) < 2 ^ (n - 1)"
  shows "unat x < 2 ^ 31"
proof -
  have "(2::nat) ^ (n - 1) \<le> 2 ^ 31"
    using assms by (intro power_increasing) auto
  with assms show ?thesis by simp
qed

lemma getTwosComplement_negative:
  assumes "1 \<le> n" "n < 32" "2 ^ (n - 1) \<le> unat x" "unat x < 2 ^ n"
  shows "getTwosComplement x n = x - push_bit n 1"
    and "sint (getTwosComplement x n) = int (unat x) - 2 ^ n"
proof -
  from assms have "n - 1 < 32" by simp
  then have "unat (push_bit (n - 1) 1 :: 32 word) = 2 ^ (n - 1)"
    by (rule unat_one_shifted)
  with assms have "\<not> x < push_bit (n - 1) 1"
    by (simp add: word_less_nat_alt)
  with assms show eq: "getTwosComplement x n = x - push_bit n 1"
    by (simp add: getTwosComplement_def)
  have p: "(2::int) ^ n \<le> 2 ^ 31"
    using assms by (intro power_increasing) auto
  have h: "(2::int) ^ n = 2 * 2 ^ (n - 1)"
    using assms by (cases n) auto
  have lo: "(2::int) ^ (n - 1) \<le> int (unat x)"
    using assms(3) by (metis of_nat_le_iff of_nat_numeral of_nat_power)
  have hi: "int (unat x) < 2 ^ n"
    using assms(4) by (metis of_nat_less_iff of_nat_numeral of_nat_power)
  have w: "x - push_bit n 1 = word_of_int (int (unat x) - 2 ^ n)"
    by (simp add: push_bit_eq_mult)
  have "- (2 ^ 31) \<le> int (unat x) - 2 ^ n"
    using p lo h by linarith
  moreover have "int (unat x) - 2 ^ n < 2 ^ 31"
    using hi by (simp add: order_less_trans [of _ 0])
  ultimately have "signed_take_bit 31 (int (unat x) - 2 ^ n) = int (unat x) - 2 ^ n"
    by (rule signed_take_bit_int_eq_self)
  moreover have "sint (word_of_int (int (unat x) - 2 ^ n) :: 32 word) =
      signed_take_bit 31 (int (unat x) - 2 ^ n)"
    by (simp only: sint_sbintrunc') simp
  ultimately show "sint (getTwosComplement x n) = int (unat x) - 2 ^ n"
    by (simp only: eq w)
qed

lemma getTwosComplement_twice_negative:
  assumes "1 \<le> n" "n < 32" "2 ^ (n - 1) \<le> unat x" "unat x < 2 ^ n"
  shows "getTwosComplement (getTwosComplement x n) n \<noteq> getTwosComplement x n"
proof -
  let ?y = "getTwosComplement x n"
  have neg: "sint ?y < 0"
    using getTwosComplement_negative(2) [OF assms] assms(4)
    by (metis diff_less_0_iff_less of_nat_less_iff of_nat_numeral of_nat_power)
  have "\<not> unat ?y < 2 ^ (n - 1)"
  proof
    assume a: "unat ?y < 2 ^ (n - 1)"
    have "unat ?y < 2 ^ 31"
      by (rule small_below_sign [of n]) (use assms a in auto)
    then have "sint ?y = int (unat ?y)" by (rule sint_small)
    with neg show False by simp
  qed
  moreover have "unat (push_bit (n - 1) 1 :: 32 word) = 2 ^ (n - 1)"
    using assms by (intro unat_one_shifted) simp
  ultimately have "\<not> ?y < push_bit (n - 1) 1"
    by (simp add: word_less_nat_alt)
  then have "getTwosComplement ?y n = ?y - push_bit n 1"
    using assms by (simp add: getTwosComplement_def)
  moreover have "(push_bit n 1 :: 32 word) \<noteq> 0"
    using unat_one_shifted [OF assms(2)] by (metis power_not_zero unat_0 zero_neq_numeral)
  ultimately show ?thesis by simp
qed

text \<open>
  C6 (as amended). For a length \<open>n\<close> from 0 to 32 read inside the stream, \<open>getBits\<close>
  returns a value below \<open>2 ^ n\<close>. For a width \<open>n\<close> from 1 to 32, \<open>getTwosComplement\<close>
  returns every \<open>x\<close> below \<open>2 ^ (n - 1)\<close> as it is, and a second application returns
  the same value again. For a width below 32 and an \<open>n\<close>-bit \<open>x\<close> with its top bit set,
  the result is \<open>x - 2 ^ n\<close>, and a second application returns another value.
\<close>

theorem getBits_range_getTwosComplement_fixpoints:
  "(n \<le> 32 \<and> p + n \<le> 32 * length s \<longrightarrow> unat (getBits s p n) < 2 ^ n)
   \<and> (1 \<le> n \<and> n \<le> 32 \<and> unat x < 2 ^ (n - 1) \<longrightarrow>
        getTwosComplement x n = x
        \<and> sint (getTwosComplement x n) = int (unat x)
        \<and> getTwosComplement (getTwosComplement x n) n = getTwosComplement x n)
   \<and> (1 \<le> n \<and> n < 32 \<and> 2 ^ (n - 1) \<le> unat x \<and> unat x < 2 ^ n \<longrightarrow>
        sint (getTwosComplement x n) = int (unat x) - 2 ^ n
        \<and> getTwosComplement (getTwosComplement x n) n \<noteq> getTwosComplement x n)"
proof (intro conjI impI)
  show "unat (getBits s p n) < 2 ^ n" by (rule getBits_less)
next
  assume a: "1 \<le> n \<and> n \<le> 32 \<and> unat x < 2 ^ (n - 1)"
  then show eq: "getTwosComplement x n = x"
    by (intro getTwosComplement_small) auto
  from a have "unat x < 2 ^ 31"
    by (intro small_below_sign [of n]) auto
  then show "sint (getTwosComplement x n) = int (unat x)"
    unfolding eq by (rule sint_small)
  show "getTwosComplement (getTwosComplement x n) n = getTwosComplement x n"
    by (simp only: eq)
next
  assume a: "1 \<le> n \<and> n < 32 \<and> 2 ^ (n - 1) \<le> unat x \<and> unat x < 2 ^ n"
  then show "sint (getTwosComplement x n) = int (unat x) - 2 ^ n"
    by (intro getTwosComplement_negative(2)) auto
  from a show "getTwosComplement (getTwosComplement x n) n \<noteq> getTwosComplement x n"
    by (intro getTwosComplement_twice_negative) auto
qed

theorem getBits_range_getTwosComplement_fixpoints_witness:
  "(4 \<le> (32::nat) \<and> 32 + 4 \<le> 32 * length [1, 0xFFFFFFFF :: 32 word]
      \<and> getBits [1, 0xFFFFFFFF] 32 4 = 0xF \<and> unat (getBits [1, 0xFFFFFFFF] 32 4) < 2 ^ 4)
   \<and> (unat (100 :: 32 word) < 2 ^ (8 - 1) \<and> getTwosComplement 100 8 = 100)
   \<and> (2 ^ (8 - 1) \<le> unat (255 :: 32 word) \<and> unat (255 :: 32 word) < 2 ^ 8
      \<and> sint (getTwosComplement 255 8) = - 1)"
proof -
  have g: "getBits [1, 0xFFFFFFFF] 32 4 = 0xF"
    by code_simp
  show ?thesis
    using getBits_range_getTwosComplement_fixpoints [of 4 32 "[1, 0xFFFFFFFF]" 100]
      getBits_range_getTwosComplement_fixpoints [of 8 0 "[]" 100]
      getBits_range_getTwosComplement_fixpoints [of 8 0 "[]" 255]
    by (simp add: g)
qed

theorem getTwosComplement_idempotent_counterexample:
  "getTwosComplement (getTwosComplement 255 8) 8 \<noteq> getTwosComplement 255 8"
  by (simp add: getTwosComplement_def)

section \<open>Properties of the ephemeris scaler and of the message reader\<close>

lemma scaleGPSEphemeris_nth:
  "i < 8 \<Longrightarrow> j < 4 \<Longrightarrow>
   snd (scaleGPSEphemeris bom) ! i ! j = scaleGPSEphemeris_elem bom i j"
  by (simp add: scaleGPSEphemeris_def)

text \<open>
  C4 (as amended). The fit interval \<open>bo[7][1]\<close> computed by \<open>scaleGPSEphemeris\<close> is 4
  hours when the fit flag is 0, whatever the IODC, so also for IODC 200; with the fit
  flag set it is 8 hours for IODC 240 and 26 hours for IODC 1022.
\<close>

theorem scaleGPSEphemeris_fit_interval:
  "(bom ! 7 ! 1 = 0 \<longrightarrow> snd (scaleGPSEphemeris bom) ! 7 ! 1 = 4)
   \<and> (bom ! 7 ! 1 \<noteq> 0 \<and> bom ! 6 ! 3 = 240 \<longrightarrow> snd (scaleGPSEphemeris bom) ! 7 ! 1 = 8)
   \<and> (bom ! 7 ! 1 \<noteq> 0 \<and> bom ! 6 ! 3 = 1022 \<longrightarrow> snd (scaleGPSEphemeris bom) ! 7 ! 1 = 26)"
  by (simp add: scaleGPSEphemeris_nth scaleGPSEphemeris_elem_def)

theorem scaleGPSEphemeris_fit_interval_witness:
  "bomFit 0 200 ! 7 ! 1 = 0 \<and> bomFit 0 200 ! 6 ! 3 = 200
   \<and> snd (scaleGPSEphemeris (bomFit 0 200)) ! 7 ! 1 = 4
   \<and> bomFit 1 240 ! 7 ! 1 \<noteq> 0 \<and> bomFit 1 240 ! 6 ! 3 = 240
   \<and> snd (scaleGPSEphemeris (bomFit 1 240)) ! 7 ! 1 = 8
   \<and> bomFit 1 1022 ! 7 ! 1 \<noteq> 0 \<and> bomFit 1 1022 ! 6 ! 3 = 1022
   \<and> snd (scaleGPSEphemeris (bomFit 1 1022)) ! 7 ! 1 = 26"
  using scaleGPSEphemeris_fit_interval [of "bomFit 0 200"]
    scaleGPSEphemeris_fit_interval [of "bomFit 1 240"]
    scaleGPSEphemeris_fit_interval [of "bomFit 1 1022"]
  by (simp add: bomFit_def)

theorem scaleGPSEphemeris_fit_interval_counterexample:
  "snd (scaleGPSEphemeris (bomFit 0 200)) ! 7 ! 1 \<noteq> 6"
  by (simp add: scaleGPSEphemeris_nth scaleGPSEphemeris_elem_def bomFit_def)

lemma word32_length: "LENGTH(32) = 32"
  by simp

lemma unat_big_endian_length:
  fixes b0 b1 :: "8 word"
  shows "unat (push_bit 8 (ucast b0 :: 32 word) OR ucast b1) = 256 * unat b0 + unat b1"
proof -
  have b0: "unat b0 < 256"
    using unsigned_less [of b0, where ?'a = nat] by simp
  have b1: "unat b1 < 256"
    using unsigned_less [of b1, where ?'a = nat] by simp
  have "unat b0 < 2 ^ 32" using b0 by simp
  then have u0: "unat (ucast b0 :: 32 word) = unat b0"
    unfolding unsigned_ucast_eq by (simp only: word32_length take_bit_nat_eq_self)
  have "unat b1 < 2 ^ 32" using b1 by simp
  then have u1: "unat (ucast b1 :: 32 word) = unat b1"
    unfolding unsigned_ucast_eq by (simp only: word32_length take_bit_nat_eq_self)
  have "256 * unat b0 < 2 ^ 32" using b0 by simp
  then have p: "unat (push_bit 8 (ucast b0 :: 32 word)) = 256 * unat b0"
    unfolding unsigned_push_bit_eq u0 by (simp add: take_bit_nat_eq_self push_bit_eq_mult)
  have disj: "push_bit 8 (unat b0) AND unat b1 = 0"
    by (rule bit_eqI) (auto simp: bit_simps dest: bit_imp_le_length)
  have "unat (push_bit 8 (ucast b0 :: 32 word) OR ucast b1) = push_bit 8 (unat b0) OR unat b1"
    unfolding unsigned_or_eq p u1 by (simp add: push_bit_eq_mult mult.commute)
  also have "\<dots> = push_bit 8 (unat b0) + unat b1"
    by (rule disjunctive_add_eq_or [symmetric]) (rule disj)
  finally show ?thesis by (simp add: push_bit_eq_mult)
qed

lemma fill_two_bytes:
  "fill (b0 # b1 # rest) m =
     (let m1 = m\<lparr>cursor := 0, payloadLength := push_bit 8 (ucast b0) OR ucast b1\<rparr>;
          len = 256 * unat b0 + unat b1
      in if 2048 < len then (False, m1, rest)
         else if length rest < len
           then (False, m1\<lparr>payload := rest @ drop (length rest) (payload m)\<rparr>, [])
         else (True, m1\<lparr>payload := take len rest @ drop len (payload m)\<rparr>, drop len rest))"
  by (simp add: fill_def fread_def Let_def MAXPAYLOADSIZE_def unat_big_endian_length min_def)

text \<open>What \<open>fill\<close> does for a length field above 0: it fails when the big-endian
  length is greater than 2048 and when fewer payload bytes than the length are left, as
  it does when fewer than two length bytes can be read; for every length from 1 to 2048
  with that many bytes left it returns true, the payload holds these bytes, the cursor
  is 0 and the file is past them.\<close>

lemma fill_nonzero_lengths:
  "(length file < 2 \<longrightarrow> \<not> fst (fill file m))
   \<and> (2048 < 256 * unat b0 + unat b1 \<longrightarrow> \<not> fst (fill (b0 # b1 # rest) m))
   \<and> (length rest < 256 * unat b0 + unat b1 \<longrightarrow> \<not> fst (fill (b0 # b1 # rest) m))
   \<and> (1 \<le> 256 * unat b0 + unat b1 \<and> 256 * unat b0 + unat b1 \<le> 2048
        \<and> 256 * unat b0 + unat b1 \<le> length rest \<longrightarrow>
        fill (b0 # b1 # rest) m =
          (True,
           m\<lparr>cursor := 0, payloadLength := push_bit 8 (ucast b0) OR ucast b1,
             payload := take (256 * unat b0 + unat b1) rest
                          @ drop (256 * unat b0 + unat b1) (payload m)\<rparr>,
           drop (256 * unat b0 + unat b1) rest))"
proof (intro conjI impI)
  assume "length file < 2"
  then show "\<not> fst (fill file m)"
    by (simp add: fill_def fread_def Let_def)
qed (simp_all add: fill_two_bytes Let_def)

text \<open>
  C7. In stripped mode the reading of one message has to fail when the big-endian
  length field is 0 or greater than 2048 and when fewer payload bytes than the length
  can be read, and to succeed for every length from 1 to 2048 with a full payload.
  \<open>fill\<close> misses the first case: on a file whose next two bytes are zero it returns
  true, with the payload length 0 and the file past the two bytes, and the call of
  \<open>get\<close> for the message number, which follows every successful \<open>fill\<close>, throws. The
  readers of framed messages test the length for being above 0.
\<close>

theorem fill_accepts_zero_length:
  "fill [0, 0] emptyMessage = (True, emptyMessage, [])
   \<and> get (fst (snd (fill [0, 0] emptyMessage))) = Inl 1"
  by (simp add: fill_two_bytes get_def emptyMessage_def)

section \<open>Properties of the filter and of the epoch acquisition\<close>

lemma set_insertObs: "set (insertObs x ys) = insert x (set ys)"
  by (induction ys) auto

lemma set_sortObs: "set (sortObs xs) = set xs"
  by (induction xs) (simp_all add: sortObs_def set_insertObs)

lemma setFilter_GC1C:
  "setFilter [] [''GC1C''] (rinexGR\<lparr>epochObs := xs\<rparr>) =
     Some (True,
       \<lparr>systems = [sysG\<lparr>selObsType := [True, False]\<rparr>, sysR\<lparr>selSystem := False\<rparr>],
        epochTimeTag = 0, epochObs = xs, epochNav = [],
        applyObsFilter = True, applyNavFilter = False, selectedSats = []\<rparr>)"
  by (simp add: setFilter_def setFilter_reset_def rinexGR_def sysG_def sysR_def sysInx_def
      updSystem_def Let_def)

text \<open>
  C5 (as amended). The header holds the systems G and R (indexes 0 and 1), each with
  the observables C1C and L1C (indexes 0 and 1). After \<open>setFilter\<close> with no satellite and
  the observable \<open>GC1C\<close>, which returns true, \<open>filterObsData\<close> leaves the records of system
  G and observable C1C, in the order of \<open>operator <\<close>, and nothing else: the records of
  system G and observable L1C are removed, and so is every record of system R, since
  selecting an observable of G selects the system G alone.
\<close>

theorem setFilter_GC1C_filterObsData:
  assumes "\<forall>x \<in> set xs. (sysIndex x = 0 \<or> sysIndex x = 1)
                      \<and> (obsTypeIndex x = 0 \<or> obsTypeIndex x = 1)"
  shows "map_option fst (setFilter [] [''GC1C''] (rinexGR\<lparr>epochObs := xs\<rparr>)) = Some True
       \<and> filteredStore [] [''GC1C''] (rinexGR\<lparr>epochObs := xs\<rparr>) =
           Some (sortObs (filter (\<lambda>x. sysIndex x = 0 \<and> obsTypeIndex x = 0) xs))
       \<and> set (sortObs (filter (\<lambda>x. sysIndex x = 0 \<and> obsTypeIndex x = 0) xs)) =
           {x \<in> set xs. sysIndex x = 0 \<and> obsTypeIndex x = 0}"
proof -
  let ?r1 = "\<lparr>systems = [sysG\<lparr>selObsType := [True, False]\<rparr>, sysR\<lparr>selSystem := False\<rparr>],
             epochTimeTag = 0, epochObs = xs, epochNav = [],
             applyObsFilter = True, applyNavFilter = False, selectedSats = []\<rparr>"
  have "epochObs (snd (filterObsData ?r1)) =
          sortObs (filter (\<lambda>x. sysIndex x = 0 \<and> obsTypeIndex x = 0) xs)"
    unfolding filterObsData_def Let_def isSatSelected_def
    using assms
    by (auto intro!: arg_cong [where f = sortObs] filter_cong simp: sysG_def sysR_def)
  then show ?thesis
    by (simp add: filteredStore_def setFilter_GC1C set_sortObs)
qed

theorem setFilter_GC1C_filterObsData_witness:
  "sysIndex (obsRec 1 3 0) = 1 \<and> obsTypeIndex (obsRec 1 3 0) = 0
   \<and> sysIndex (obsRec 0 7 1) = 0 \<and> obsTypeIndex (obsRec 0 7 1) = 1
   \<and> sysIndex (obsRec 0 7 0) = 0 \<and> obsTypeIndex (obsRec 0 7 0) = 0
   \<and> sysIndex (obsRec 0 2 0) = 0 \<and> obsTypeIndex (obsRec 0 2 0) = 0
   \<and> filteredStore [] [''GC1C'']
        (rinexGR\<lparr>epochObs := [obsRec 1 3 0, obsRec 0 7 1, obsRec 0 7 0, obsRec 0 2 0]\<rparr>) =
      Some [obsRec 0 2 0, obsRec 0 7 0]"
  using setFilter_GC1C_filterObsData [of "[obsRec 1 3 0, obsRec 0 7 1, obsRec 0 7 0, obsRec 0 2 0]"]
  by (simp add: obsRec_def sortObs_def obsLess_def)

theorem filterObsData_keeps_R_counterexample:
  "filteredStore [] [''GC1C''] (rinexGR\<lparr>epochObs := [obsRec 1 3 0, obsRec 0 7 0]\<rparr>) =
     Some [obsRec 0 7 0]
   \<and> obsRec 1 3 0 \<notin> set [obsRec 0 7 0]"
  by (simp add: filteredStore_def setFilter_GC1C filterObsData_def isSatSelected_def
      Let_def obsRec_def sortObs_def sysG_def sysR_def)

lemma findObsType_receiver:
  "findObsType [''C1C'', ''L1C'', ''D1C'', ''S1C''] ''C1C'' 0 = Some 0"
  "findObsType [''C1C'', ''L1C'', ''D1C'', ''S1C''] ''L1C'' 0 = Some 1"
  "findObsType [''C1C'', ''L1C'', ''D1C'', ''S1C''] ''D1C'' 0 = Some 2"
  "findObsType [''C1C'', ''L1C'', ''D1C'', ''S1C''] ''S1C'' 0 = Some 3"
  by simp_all

lemma save_all_missing:
  assumes "chSystem it = CHR ''G''" "psedrng it = 0" "carrPh it = 0" "carrFq it = 0"
  shows "map obsValue (epochObs (acqEpochData_save applyBias b d [it] rinexG4)) =
           [0, 0, 0, signalStrg it]"
  using assms
  by (simp add: acqEpochData_save_def epochObsCalls_def rinexG4_def saveObsData_def
      sysInx_def Let_def)

text \<open>
  C10. In the loop that saves an epoch, the correction derived from the clock bias is
  subtracted from nonzero observables only. A pseudorange, a carrier phase or a carrier
  frequency equal to 0 is passed to \<open>saveObsData\<close> as 0, with or without bias application;
  with bias application a nonzero one is passed reduced by its correction. A channel of
  a declared system where the three are 0 is stored with the values 0, 0, 0 and its
  signal strength.
\<close>

theorem acqEpochData_zero_not_corrected:
  "(psedrng it = 0 \<longrightarrow> callValue (epochObsCalls applyBias b d it ! 0) = 0)
   \<and> (carrPh it = 0 \<longrightarrow> callValue (epochObsCalls applyBias b d it ! 1) = 0)
   \<and> (carrFq it = 0 \<longrightarrow> callValue (epochObsCalls applyBias b d it ! 2) = 0)
   \<and> (psedrng it \<noteq> 0 \<longrightarrow>
        callValue (epochObsCalls True b d it ! 0) = psedrng it - b * C1CADJ)
   \<and> (carrPh it \<noteq> 0 \<longrightarrow>
        callValue (epochObsCalls True b d it ! 1) = carrPh it * L1WLINV - b * L1CADJ)
   \<and> (carrFq it \<noteq> 0 \<longrightarrow>
        callValue (epochObsCalls True b d it ! 2) = carrFq it * L1WLINV - d)
   \<and> map callObsType (epochObsCalls applyBias b d it) = [''C1C'', ''L1C'', ''D1C'', ''S1C'']
   \<and> (chSystem it = CHR ''G'' \<and> psedrng it = 0 \<and> carrPh it = 0 \<and> carrFq it = 0 \<longrightarrow>
        map obsValue (epochObs (acqEpochData_save applyBias b d [it] rinexG4)) =
          [0, 0, 0, signalStrg it])"
proof -
  have nz: "L1WLINV \<noteq> 0" by (simp add: L1WLINV_def)
  show ?thesis
    by (intro conjI impI save_all_missing) (simp_all add: epochObsCalls_def Let_def nz)
qed

theorem acqEpochData_zero_not_corrected_witness:
  "psedrng chMissing = 0 \<and> carrPh chMissing = 0 \<and> carrFq chMissing = 0
   \<and> chSystem chMissing = CHR ''G''
   \<and> map callValue (epochObsCalls True (1 / 1000) 5 chMissing) = [0, 0, 0, 30]
   \<and> map obsValue (epochObs (acqEpochData_save True (1 / 1000) 5 [chMissing] rinexG4)) =
        [0, 0, 0, 30]
   \<and> psedrng (chMissing\<lparr>psedrng := 20000000, carrPh := 2, carrFq := 3\<rparr>) \<noteq> 0
   \<and> callValue (epochObsCalls True (1 / 1000) 5
        (chMissing\<lparr>psedrng := 20000000, carrPh := 2, carrFq := 3\<rparr>) ! 0) =
      20000000 - 1 / 1000 * C1CADJ"
  using acqEpochData_zero_not_corrected [of chMissing True "1 / 1000" 5]
    acqEpochData_zero_not_corrected
      [of "chMissing\<lparr>psedrng := 20000000, carrPh := 2, carrFq := 3\<rparr>" True "1 / 1000" 5]
  by (simp add: chMissing_def epochObsCalls_def Let_def)

section \<open>Layout of the epoch header in version 2.10\<close>

lemma blanks32: "printf_c 32 (CHR '' '') = replicate 32 (CHR '' '')"
  by code_simp

lemma blanks3: "printf_c 3 (CHR '' '') = replicate 3 (CHR '' '')"
  by code_simp

lemma printSats_printTriples:
  "printSats r clk prev xs a c out = printTriples clk (map (printSat r) (newSats prev xs)) a c out"
  by (induction xs arbitrary: prev a c out) (simp_all add: Let_def)

lemma countSats_newSats: "countSats prev xs n = n + length (newSats prev xs)"
  by (induction xs arbitrary: prev n) simp_all

lemma printTriples_append:
  "printTriples clk (ts1 @ ts2) a c out =
     (case printTriples clk ts1 a c out of (out1, a1, c1) \<Rightarrow> printTriples clk ts2 a1 c1 out1)"
  by (induction ts1 arbitrary: a c out) (simp_all add: Let_def)

lemma fillLine_blanks:
  "fillLine a out = out @ replicate (3 * ((12 - a mod 12) mod 12)) (CHR '' '')"
proof (induction a out rule: fillLine.induct)
  case (1 anInt out)
  show ?case
  proof (cases "anInt mod 12 = 0")
    case True
    then show ?thesis by (simp add: fillLine.simps [of anInt])
  next
    case False
    have m: "anInt mod 12 < 12" by simp
    have "3 * ((12 - anInt mod 12) mod 12) = 3 + 3 * ((12 - Suc anInt mod 12) mod 12)"
      using False m by (auto simp: mod_Suc)
    then have "replicate (3 * ((12 - anInt mod 12) mod 12)) (CHR '' '') =
        replicate 3 (CHR '' '') @ replicate (3 * ((12 - Suc anInt mod 12) mod 12)) (CHR '' '')"
      by (simp only: replicate_add)
    with False "1.IH" show ?thesis
      by (simp add: fillLine.simps [of anInt] blanks3)
  qed
qed

lemma first_line:
  "1 \<le> a \<Longrightarrow> a < 12 \<Longrightarrow> a + length ts \<le> 12 \<Longrightarrow>
   printTriples clk ts a False out =
     (out @ concat ts @ (if a + length ts = 12 then clk else []), a + length ts,
      a + length ts = 12)"
proof (induction ts arbitrary: a out)
  case Nil
  then show ?case by simp
next
  case (Cons t ts)
  from Cons.prems have nz: "a mod 12 \<noteq> 0" by simp
  show ?case
  proof (cases "a + 1 = 12")
    case True
    with Cons.prems have "ts = []" by simp
    with True nz show ?thesis by simp
  next
    case False
    with Cons.prems have "1 \<le> a + 1" "a + 1 < 12" "a + 1 + length ts \<le> 12" by simp_all
    from Cons.IH [OF this] False nz show ?thesis by simp
  qed
qed

lemma inside_line:
  "12 \<le> a \<Longrightarrow> a mod 12 \<noteq> 0 \<Longrightarrow> a mod 12 + length ts \<le> 12 \<Longrightarrow>
   printTriples clk ts a c out = (out @ concat ts, a + length ts, c)"
proof (induction ts arbitrary: a out)
  case Nil
  then show ?case by simp
next
  case (Cons t ts)
  from Cons.prems have ne: "a + 1 \<noteq> 12" by simp
  show ?case
  proof (cases ts)
    case Nil
    with Cons.prems ne show ?thesis by simp
  next
    case (Cons u us)
    with Cons.prems have lt: "a mod 12 < 11" by simp
    then have s: "Suc a mod 12 = Suc (a mod 12)" by (simp add: mod_Suc)
    have "12 \<le> a + 1" "(a + 1) mod 12 \<noteq> 0" "(a + 1) mod 12 + length ts \<le> 12"
      using Cons.prems s by simp_all
    from Cons.IH [OF this] Cons.prems ne show ?thesis by simp
  qed
qed

lemma line_start:
  assumes "12 \<le> a" "a mod 12 = 0" "ts \<noteq> []" "length ts \<le> 12"
  shows "printTriples clk ts a c out =
           (out @ newline # replicate 32 (CHR '' '') @ concat ts, a + length ts, c)"
proof -
  from assms obtain t us where ts: "ts = t # us" by (cases ts) auto
  from assms have ne: "a + 1 \<noteq> 12" by simp
  have s: "Suc a mod 12 = 1" using assms by (simp add: mod_Suc)
  have "printTriples clk us (a + 1) c (out @ newline # replicate 32 (CHR '' '') @ t) =
          ((out @ newline # replicate 32 (CHR '' '') @ t) @ concat us, a + 1 + length us, c)"
    by (rule inside_line) (use assms ts s in simp_all)
  with assms ne show ?thesis by (simp add: ts blanks32)
qed

lemma continuation:
  "12 \<le> a \<Longrightarrow> a mod 12 = 0 \<Longrightarrow>
   endHeader clk (printTriples clk ts a True out) = out @ continuationLines ts @ [newline]"
proof (induction ts arbitrary: a out rule: continuationLines.induct)
  case (1 ts)
  show ?case
  proof (cases "ts = []")
    case True
    with "1.prems" show ?thesis
      by (simp add: continuationLines.simps [of "[]"] fillLine_blanks)
  next
    case False
    let ?t1 = "take 12 ts"
    let ?out1 = "out @ newline # replicate 32 (CHR '' '') @ concat ?t1"
    have t1: "?t1 \<noteq> []" "length ?t1 \<le> 12" using False by simp_all
    have split: "printTriples clk ts a True out =
        printTriples clk (drop 12 ts) (a + length ?t1) True ?out1"
      using printTriples_append [of clk ?t1 "drop 12 ts" a True out]
        line_start [OF "1.prems" t1, of clk True out] by simp
    show ?thesis
    proof (cases "length ts \<le> 12")
      case True
      then have len: "length ?t1 = length ts" "drop 12 ts = []" "?t1 = ts" by simp_all
      have "1 \<le> length ts" using False by (cases ts) auto
      moreover have "(a + length ts) mod 12 = length ts mod 12"
        using "1.prems" by presburger
      ultimately have "(12 - (a + length ts) mod 12) mod 12 = 12 - length ts"
        using True by (cases "length ts = 12") simp_all
      with False len show ?thesis
        by (simp add: split continuationLines.simps [of ts] continuationLines.simps [of "[]"]
            fillLine_blanks)
    next
      case gt: False
      then have len: "length ?t1 = 12" by simp
      have "12 \<le> a + 12" "(a + 12) mod 12 = 0" using "1.prems" by simp_all
      from "1.IH" [OF False this, of ?out1] False len show ?thesis
        by (simp add: split continuationLines.simps [of ts])
    qed
  qed
qed

lemma header_layout:
  "endHeader clk (printTriples clk ts 1 False (pre @ t0)) =
     pre @ concat (take 12 (t0 # ts))
       @ replicate (3 * (12 - length (take 12 (t0 # ts)))) (CHR '' '')
       @ clk @ continuationLines (drop 12 (t0 # ts)) @ [newline]"
proof (cases "length ts \<le> 11")
  case True
  then have "printTriples clk ts 1 False (pre @ t0) =
      ((pre @ t0) @ concat ts @ (if 1 + length ts = 12 then clk else []), 1 + length ts,
       1 + length ts = 12)"
    by (intro first_line) simp_all
  moreover have "(12 - Suc (length ts) mod 12) mod 12 = 11 - length ts"
    using True by (cases "length ts = 11") simp_all
  ultimately show ?thesis
    using True by (simp add: fillLine_blanks continuationLines.simps [of "[]"])
next
  case False
  let ?t1 = "take 11 ts"
  have len: "length ?t1 = 11" using False by simp
  have "printTriples clk ?t1 1 False (pre @ t0) =
      ((pre @ t0) @ concat ?t1 @ (if 1 + length ?t1 = 12 then clk else []), 1 + length ?t1,
       1 + length ?t1 = 12)"
    by (intro first_line) simp_all
  then have "printTriples clk ts 1 False (pre @ t0) =
      printTriples clk (drop 11 ts) 12 True (pre @ t0 @ concat ?t1 @ clk)"
    using printTriples_append [of clk ?t1 "drop 11 ts" 1 False "pre @ t0"] len by simp
  moreover have "endHeader clk (printTriples clk (drop 11 ts) 12 True (pre @ t0 @ concat ?t1 @ clk))
      = (pre @ t0 @ concat ?t1 @ clk) @ continuationLines (drop 11 ts) @ [newline]"
    by (rule continuation) simp_all
  ultimately show ?thesis using False by simp
qed

text \<open>
  C8 (as amended). The version 2.10 writer prints an epoch header as follows, for the
  satellites of the sorted store in their order. The first line holds the time, the
  flag, the number of satellites, the first twelve satellite triples, filled with blanks
  to twelve when they are fewer, and then the receiver clock offset. The triples beyond
  the twelfth go to continuation lines that begin with 32 blanks and hold up to twelve
  triples each, the last one filled with blanks to twelve; no continuation line
  carries the clock offset.
\<close>

theorem printObsEpoch_V210_header_layout:
  assumes "epochObs r = first # rest"
  shows "printObsEpoch_V210_header r timeBuffer epochFlag clk =
           epochHeaderLayout timeBuffer epochFlag clk
             (map (printSat r) (first # newSats first rest))"
proof -
  let ?ts = "map (printSat r) (newSats first rest)"
  let ?pre = "timeBuffer @ ''  '' @ printf_d 1 epochFlag @ printf_d 3 (int (Suc (length ?ts)))"
  have "printObsEpoch_V210_header r timeBuffer epochFlag clk =
          endHeader clk (printTriples clk ?ts 1 False (?pre @ printSat r first))"
    by (simp add: printObsEpoch_V210_header_def assms countSats_newSats printSats_printTriples
        Let_def split: prod.splits)
  also have "\<dots> = ?pre @ concat (take 12 (printSat r first # ?ts))
       @ replicate (3 * (12 - length (take 12 (printSat r first # ?ts)))) (CHR '' '')
       @ clk @ continuationLines (drop 12 (printSat r first # ?ts)) @ [newline]"
    by (rule header_layout)
  finally show ?thesis
    by (simp add: epochHeaderLayout_def)
qed

theorem printObsEpoch_V210_header_layout_witness:
  "epochObs (epochOfSats 13) = obsRec 0 1 0 # map (\<lambda>k. obsRec 0 (int k) 0) [2..<14]
   \<and> printObsEpoch_V210_header (epochOfSats 13) timeText 0 clkText =
       timeText @ ''  0 13G01G02G03G04G05G06G07G08G09G10G11G12'' @ clkText @ [newline]
         @ replicate 32 (CHR '' '') @ ''G13'' @ replicate 33 (CHR '' '') @ [newline]"
proof -
  have e: "epochObs (epochOfSats 13) = obsRec 0 1 0 # map (\<lambda>k. obsRec 0 (int k) 0) [2..<14]"
    by code_simp
  have v: "epochHeaderLayout timeText 0 clkText
             (map (printSat (epochOfSats 13))
                (obsRec 0 1 0 # newSats (obsRec 0 1 0) (map (\<lambda>k. obsRec 0 (int k) 0) [2..<14]))) =
           timeText @ ''  0 13G01G02G03G04G05G06G07G08G09G10G11G12'' @ clkText @ [newline]
             @ replicate 32 (CHR '' '') @ ''G13'' @ replicate 33 (CHR '' '') @ [newline]"
    by code_simp
  show ?thesis
    using printObsEpoch_V210_header_layout [OF e, of timeText 0 clkText] e v by simp
qed

theorem printObsEpoch_V210_clock_last_line_counterexample:
  "splitLines (printObsEpoch_V210_header (epochOfSats 13) timeText 0 clkText) [] =
     [timeText @ ''  0 13G01G02G03G04G05G06G07G08G09G10G11G12'' @ clkText,
      replicate 32 (CHR '' '') @ ''G13'' @ replicate 33 (CHR '' '')]
   \<and> CHR ''.'' \<in> set clkText
   \<and> CHR ''.'' \<notin> set (last (splitLines
        (printObsEpoch_V210_header (epochOfSats 13) timeText 0 clkText) []))"
  by code_simp

section \<open>Completion of a GPS ephemeris from three subframes\<close>

lemma byte_mask: "(0xFF :: 32 word) = mask 8"
  by (simp add: mask_eq_exp_minus_1)

lemma halfword_mask: "(0xFFFF :: 32 word) = mask 16"
  by (simp add: mask_eq_exp_minus_1)

lemma low_byte_of_packed:
  fixes a b :: "32 word"
  shows "(push_bit 8 a OR (b AND 0xFF)) AND 0xFF = b AND 0xFF"
  unfolding byte_mask by (rule bit_word_eqI) (auto simp: bit_simps)

lemma second_byte_of_item:
  fixes w :: "32 word"
  shows "drop_bit 8 (drop_bit 8 w AND 0xFFFF) AND 0xFF = drop_bit 16 w AND 0xFF"
  unfolding byte_mask halfword_mask by (rule bit_word_eqI) (auto simp: bit_simps)

lemma packItem1_low: "packItem1 ws j AND 0xFF = drop_bit 16 (ws ! (j * 2 + 1)) AND 0xFF"
  unfolding packItem1_def by (rule low_byte_of_packed)

lemma packItem0_high:
  "drop_bit 8 (packItem0 ws j) AND 0xFF = drop_bit 16 (ws ! (j * 2)) AND 0xFF"
  unfolding packItem0_def by (rule second_byte_of_item)

lemma packNavW_iods:
  "packNavW st ch s ! 10 AND 0xFF = drop_bit 16 (words (subfrmCh st ! ch ! 0) ! 7) AND 0xFF"
  "drop_bit 8 (packNavW st ch s ! 18) AND 0xFF =
     drop_bit 16 (words (subfrmCh st ! ch ! 1) ! 2) AND 0xFF"
  "packNavW st ch s ! 43 AND 0xFF = drop_bit 16 (words (subfrmCh st ! ch ! 2) ! 9) AND 0xFF"
  "packNavW st ch s ! 0 = of_int s" "packNavW st ch s ! 15 = of_int s"
  "packNavW st ch s ! 30 = of_int s"
  using packItem1_low [of "words (subfrmCh st ! ch ! 0)" 3]
    packItem0_high [of "words (subfrmCh st ! ch ! 1)" 1]
    packItem1_low [of "words (subfrmCh st ! ch ! 2)" 4]
  by (simp_all add: packNavW_def packSubframe_def nth_append)

lemma extract_when_complete:
  assumes "allGPSEphemReceived st ch"
  shows "extractGPSEphemeris (packNavW st ch s) =
           Some (of_int s AND 0xFF, extractGPSEphemeris_bom (packNavW st ch s))"
  using assms
  by (auto simp: extractGPSEphemeris_def allGPSEphemReceived_def Let_def packNavW_iods)

lemma sint_sat_number:
  assumes "1 \<le> s" "s \<le> 32"
  shows "sint ((of_int s :: 32 word) AND 0xFF) = s"
proof -
  have t: "take_bit 8 s = s"
    using assms by (intro take_bit_int_eq_self) simp_all
  have "signed_take_bit 31 s = s"
    using assms by (intro signed_take_bit_int_eq_self) simp_all
  then show ?thesis
    unfolding byte_mask and_mask_wi t by (simp add: sint_sbintrunc')
qed

lemma getUInts_length: "getUInts n m = (Inr ws, m1) \<Longrightarrow> length ws = n"
  by (induction n arbitrary: m ws m1) (auto split: sum.splits prod.splits)

lemma subframe_index:
  fixes k :: "32 word"
  assumes "k = 1 \<or> k = 2 \<or> k = 3"
  shows "0 < k \<and> k < 4" and "unat (k - 1) < 3" and "unat (k - 1) = unat k - 1"
  using assms by auto

text \<open>What one message with correct parity and a subframe number from 1 to 3 does.\<close>

lemma getMID8GPSNavData_incomplete:
  assumes "getUInts 10 m = (Inr wd0, m1)" "list_all checkGPSparity wd0"
    and "subframeOf wd0 = 1 \<or> subframeOf wd0 = 2 \<or> subframeOf wd0 = 3"
    and "\<not> allGPSEphemReceived
            (storeSubframe st ch (unat (subframeOf wd0) - 1) s (map removeParity wd0)) ch"
  shows "getMID8GPSNavData ch s m st rinex =
           (True, m1, storeSubframe st ch (unat (subframeOf wd0) - 1) s (map removeParity wd0),
            rinex, [])"
proof -
  have len: "length wd0 = 10" using assms(1) by (rule getUInts_length)
  have id: "drop_bit 2 (map removeParity wd0 ! Suc 0) AND 7 = subframeOf wd0"
    by (simp add: subframeOf_def len)
  show ?thesis
    using assms subframe_index [OF assms(3)]
    by (simp add: getMID8GPSNavData_def Let_def id)
qed

lemma getMID8GPSNavData_complete:
  assumes "getUInts 10 m = (Inr wd0, m1)" "list_all checkGPSparity wd0"
    and "subframeOf wd0 = 1 \<or> subframeOf wd0 = 2 \<or> subframeOf wd0 = 3"
    and "allGPSEphemReceived
            (storeSubframe st ch (unat (subframeOf wd0) - 1) s (map removeParity wd0)) ch"
    and "1 \<le> s" "s \<le> 32"
  shows "\<exists>rinex1 bo tTag. getMID8GPSNavData ch s m st rinex =
           (True, m1,
            clearChannel
              (storeSubframe st ch (unat (subframeOf wd0) - 1) s (map removeParity wd0)) ch,
            rinex1, [(CHR ''G'', s, bo, tTag)])"
proof -
  have len: "length wd0 = 10" using assms(1) by (rule getUInts_length)
  have id: "drop_bit 2 (map removeParity wd0 ! Suc 0) AND 7 = subframeOf wd0"
    by (simp add: subframeOf_def len)
  show ?thesis
    using assms(1,2,4) subframe_index [OF assms(3)]
    by (simp add: getMID8GPSNavData_def Let_def id extract_when_complete
        sint_sat_number [OF assms(5,6)] split: prod.splits)
qed

lemma allGPSEphemReceived_row: "allGPSEphemReceived st ch = completeRow (subfrmCh st ! ch)"
  by (auto simp: allGPSEphemReceived_def completeRow_def Let_def)

lemma storeSubframe_row:
  "ch < length (subfrmCh st) \<Longrightarrow>
   subfrmCh (storeSubframe st ch idx s w) ! ch = (subfrmCh st ! ch)[idx := \<lparr>sv = s, words = w\<rparr>]"
  by (simp add: storeSubframe_def)

lemma storeSubframe_length:
  "length (subfrmCh (storeSubframe st ch idx s w)) = length (subfrmCh st)"
  by (simp add: storeSubframe_def)

lemma clearChannel_empty:
  "ch < length (subfrmCh st) \<Longrightarrow> emptyChannel (clearChannel st ch) ch"
  by (simp add: clearChannel_def emptyChannel_def list_all_iff)

lemma subframe_cases:
  fixes ka kb kc :: "32 word"
  assumes "ka = 1 \<or> ka = 2 \<or> ka = 3" "kb = 1 \<or> kb = 2 \<or> kb = 3" "kc = 1 \<or> kc = 2 \<or> kc = 3"
    and "distinct [ka, kb, kc]"
  shows "(ka = 1 \<and> kb = 2 \<and> kc = 3) \<or> (ka = 1 \<and> kb = 3 \<and> kc = 2)
       \<or> (ka = 2 \<and> kb = 1 \<and> kc = 3) \<or> (ka = 2 \<and> kb = 3 \<and> kc = 1)
       \<or> (ka = 3 \<and> kb = 1 \<and> kc = 2) \<or> (ka = 3 \<and> kb = 2 \<and> kc = 1)"
  using assms by auto

text \<open>The row of an empty channel after one, two and three subframes with different
  numbers from 1 to 3.\<close>

lemma three_subframes_row:
  assumes row: "length row = 5" "list_all (\<lambda>x. sv x = 0) row" and s: "s \<noteq> 0"
    and len: "length wa = 10" "length wb = 10" "length wc = 10"
    and ka: "subframeOf wa = 1 \<or> subframeOf wa = 2 \<or> subframeOf wa = 3"
    and kb: "subframeOf wb = 1 \<or> subframeOf wb = 2 \<or> subframeOf wb = 3"
    and kc: "subframeOf wc = 1 \<or> subframeOf wc = 2 \<or> subframeOf wc = 3"
    and dist: "distinct [subframeOf wa, subframeOf wb, subframeOf wc]"
  shows "\<not> completeRow (row[unat (subframeOf wa) - 1 := \<lparr>sv = s, words = map removeParity wa\<rparr>])"
    and "\<not> completeRow (row[unat (subframeOf wa) - 1 := \<lparr>sv = s, words = map removeParity wa\<rparr>,
                            unat (subframeOf wb) - 1 := \<lparr>sv = s, words = map removeParity wb\<rparr>])"
    and "completeRow (row[unat (subframeOf wa) - 1 := \<lparr>sv = s, words = map removeParity wa\<rparr>,
                          unat (subframeOf wb) - 1 := \<lparr>sv = s, words = map removeParity wb\<rparr>,
                          unat (subframeOf wc) - 1 := \<lparr>sv = s, words = map removeParity wc\<rparr>])
           \<longleftrightarrow> issueOfData wa = issueOfData wb \<and> issueOfData wb = issueOfData wc"
proof -
  have z: "sv (row ! 0) = 0" "sv (row ! 1) = 0" "sv (row ! 2) = 0"
    using row by (simp_all add: list_all_length)
  note cases = subframe_cases [OF ka kb kc dist]
  show "\<not> completeRow (row[unat (subframeOf wa) - 1 := \<lparr>sv = s, words = map removeParity wa\<rparr>])"
    using ka z s row(1) by (auto simp: completeRow_def)
  show "\<not> completeRow (row[unat (subframeOf wa) - 1 := \<lparr>sv = s, words = map removeParity wa\<rparr>,
                            unat (subframeOf wb) - 1 := \<lparr>sv = s, words = map removeParity wb\<rparr>])"
    using cases z s row(1) by (auto simp: completeRow_def)
  show "completeRow (row[unat (subframeOf wa) - 1 := \<lparr>sv = s, words = map removeParity wa\<rparr>,
                          unat (subframeOf wb) - 1 := \<lparr>sv = s, words = map removeParity wb\<rparr>,
                          unat (subframeOf wc) - 1 := \<lparr>sv = s, words = map removeParity wc\<rparr>])
           \<longleftrightarrow> issueOfData wa = issueOfData wb \<and> issueOfData wb = issueOfData wc"
    using cases row(1) len by (auto simp: completeRow_def issueOfData_def)
qed

text \<open>
  C1. The channel \<open>ch\<close> is any of the 32 channels and its subframe slots are empty. Three
  MID 8 messages of the satellite \<open>s\<close> from 1 to 32 deliver, in any order, the subframes
  1, 2 and 3 with correct parity. When the low byte of the IODC of subframe 1 equals the
  IODE of subframe 2 and the IODE of subframe 3, \<open>saveNavData\<close> is called exactly once,
  for the system G and the satellite \<open>s\<close>, and the slots of the channel are empty
  afterwards. When the values differ, \<open>saveNavData\<close> is not called.
\<close>

theorem getMID8GPSNavData_three_subframes:
  assumes st: "wellFormed st" "ch < MAXCHANNELS" "emptyChannel st ch"
    and s: "1 \<le> s" "s \<le> 32"
    and ra: "getUInts 10 ma = (Inr wa, ma1)"
    and rb: "getUInts 10 mb = (Inr wb, mb1)"
    and rc: "getUInts 10 mc = (Inr wc, mc1)"
    and pa: "list_all checkGPSparity wa"
    and pb: "list_all checkGPSparity wb"
    and pc: "list_all checkGPSparity wc"
    and ka: "subframeOf wa = 1 \<or> subframeOf wa = 2 \<or> subframeOf wa = 3"
    and kb: "subframeOf wb = 1 \<or> subframeOf wb = 2 \<or> subframeOf wb = 3"
    and kc: "subframeOf wc = 1 \<or> subframeOf wc = 2 \<or> subframeOf wc = 3"
    and dist: "distinct [subframeOf wa, subframeOf wb, subframeOf wc]"
  shows "if issueOfData wa = issueOfData wb \<and> issueOfData wb = issueOfData wc
         then length (snd (snd (feedMID8 ch s [ma, mb, mc] st rinex))) = 1
            \<and> list_all (\<lambda>c. fst c = CHR ''G'' \<and> fst (snd c) = s)
                 (snd (snd (feedMID8 ch s [ma, mb, mc] st rinex)))
            \<and> emptyChannel (fst (feedMID8 ch s [ma, mb, mc] st rinex)) ch
         else snd (snd (feedMID8 ch s [ma, mb, mc] st rinex)) = []"
proof -
  let ?ia = "unat (subframeOf wa) - 1" and ?ib = "unat (subframeOf wb) - 1"
    and ?ic = "unat (subframeOf wc) - 1"
  let ?sta = "storeSubframe st ch ?ia s (map removeParity wa)"
  let ?stb = "storeSubframe ?sta ch ?ib s (map removeParity wb)"
  let ?stc = "storeSubframe ?stb ch ?ic s (map removeParity wc)"
  let ?row = "subfrmCh st ! ch"
  have chl: "ch < length (subfrmCh st)"
    using st by (simp add: wellFormed_def)
  then have "?row \<in> set (subfrmCh st)" by simp
  then have rowlen: "length ?row = 5"
    using st(1) by (simp add: wellFormed_def list_all_iff MAXSUBFR_def)
  have rowz: "list_all (\<lambda>x. sv x = 0) ?row"
    using st(3) by (simp add: emptyChannel_def)
  have snz: "s \<noteq> 0" using s by simp
  have len: "length wa = 10" "length wb = 10" "length wc = 10"
    using ra rb rc by (simp_all add: getUInts_length)
  note rows = three_subframes_row [OF rowlen rowz snz len ka kb kc dist]
  have rowa: "subfrmCh ?sta ! ch = ?row[?ia := \<lparr>sv = s, words = map removeParity wa\<rparr>]"
    using chl by (rule storeSubframe_row)
  have chla: "ch < length (subfrmCh ?sta)"
    using chl by (simp only: storeSubframe_length)
  have rowb: "subfrmCh ?stb ! ch = ?row[?ia := \<lparr>sv = s, words = map removeParity wa\<rparr>,
                                        ?ib := \<lparr>sv = s, words = map removeParity wb\<rparr>]"
    using storeSubframe_row [OF chla] rowa by simp
  have chlb: "ch < length (subfrmCh ?stb)"
    using chla by (simp only: storeSubframe_length)
  have rowc: "subfrmCh ?stc ! ch = ?row[?ia := \<lparr>sv = s, words = map removeParity wa\<rparr>,
                                        ?ib := \<lparr>sv = s, words = map removeParity wb\<rparr>,
                                        ?ic := \<lparr>sv = s, words = map removeParity wc\<rparr>]"
    using storeSubframe_row [OF chlb] rowb by simp
  have chlc: "ch < length (subfrmCh ?stc)"
    using chlb by (simp only: storeSubframe_length)
  have na: "\<not> allGPSEphemReceived ?sta ch"
    unfolding allGPSEphemReceived_row rowa by (rule rows(1))
  have nb: "\<not> allGPSEphemReceived ?stb ch"
    unfolding allGPSEphemReceived_row rowb by (rule rows(2))
  have cc: "allGPSEphemReceived ?stc ch \<longleftrightarrow>
      issueOfData wa = issueOfData wb \<and> issueOfData wb = issueOfData wc"
    unfolding allGPSEphemReceived_row rowc by (rule rows(3))
  have a: "getMID8GPSNavData ch s ma st rinex = (True, ma1, ?sta, rinex, [])"
    using ra pa ka na by (rule getMID8GPSNavData_incomplete)
  have b: "getMID8GPSNavData ch s mb ?sta rinex = (True, mb1, ?stb, rinex, [])"
    using rb pb kb nb by (rule getMID8GPSNavData_incomplete)
  show ?thesis
  proof (cases "issueOfData wa = issueOfData wb \<and> issueOfData wb = issueOfData wc")
    case True
    then have "allGPSEphemReceived ?stc ch" using cc by blast
    from getMID8GPSNavData_complete [OF rc pc kc this s, of rinex]
    obtain rinex1 bo tTag where
      c: "getMID8GPSNavData ch s mc ?stb rinex =
            (True, mc1, clearChannel ?stc ch, rinex1, [(CHR ''G'', s, bo, tTag)])"
      by blast
    have feed: "feedMID8 ch s [ma, mb, mc] st rinex =
        (clearChannel ?stc ch, rinex1, [(CHR ''G'', s, bo, tTag)])"
      by (simp only: feedMID8.simps a b c split_conv append_Nil append_Nil2)
    have "emptyChannel (clearChannel ?stc ch) ch"
      using chlc by (rule clearChannel_empty)
    with True show ?thesis unfolding feed by simp
  next
    case False
    then have "\<not> allGPSEphemReceived ?stc ch" using cc by blast
    with rc pc kc have c: "getMID8GPSNavData ch s mc ?stb rinex = (True, mc1, ?stc, rinex, [])"
      by (rule getMID8GPSNavData_incomplete)
    have feed: "feedMID8 ch s [ma, mb, mc] st rinex = (?stc, rinex, [])"
      by (simp only: feedMID8.simps a b c split_conv append_Nil append_Nil2)
    from False show ?thesis unfolding feed by simp
  qed
qed

lemma subframes_delivered:
  "getUInts 10 (mid8Message 4 7 subframe1) =
     (Inr subframe1, mid8Message 4 7 subframe1\<lparr>cursor := 43\<rparr>)"
  "getUInts 10 (mid8Message 4 7 subframe2) =
     (Inr subframe2, mid8Message 4 7 subframe2\<lparr>cursor := 43\<rparr>)"
  "getUInts 10 (mid8Message 4 7 subframe3) =
     (Inr subframe3, mid8Message 4 7 subframe3\<lparr>cursor := 43\<rparr>)"
  "getUInts 10 (mid8Message 4 7 subframe1_other) =
     (Inr subframe1_other, mid8Message 4 7 subframe1_other\<lparr>cursor := 43\<rparr>)"
  by code_simp+

lemma subframes_parity:
  "list_all checkGPSparity subframe1" "list_all checkGPSparity subframe2"
  "list_all checkGPSparity subframe3" "list_all checkGPSparity subframe1_other"
  by code_simp+

lemma subframes_numbers:
  "subframeOf subframe1 = 1" "subframeOf subframe2 = 2" "subframeOf subframe3 = 3"
  "subframeOf subframe1_other = 1"
  "issueOfData subframe1 = 92" "issueOfData subframe2 = 92" "issueOfData subframe3 = 92"
  "issueOfData subframe1_other = 93"
  by code_simp+

lemma initialOSP_shape:
  "wellFormed initialOSP" "(4::nat) < MAXCHANNELS" "emptyChannel initialOSP 4"
  by code_simp+

theorem getMID8GPSNavData_three_subframes_witness:
  "length (snd (snd (feedMID8 4 7
      [mid8Message 4 7 subframe2, mid8Message 4 7 subframe3, mid8Message 4 7 subframe1]
      initialOSP rinexGR))) = 1
   \<and> emptyChannel (fst (feedMID8 4 7
      [mid8Message 4 7 subframe2, mid8Message 4 7 subframe3, mid8Message 4 7 subframe1]
      initialOSP rinexGR)) 4
   \<and> snd (snd (feedMID8 4 7
      [mid8Message 4 7 subframe2, mid8Message 4 7 subframe3, mid8Message 4 7 subframe1_other]
      initialOSP rinexGR)) = []"
proof -
  have s: "(1::int) \<le> 7" "(7::int) \<le> 32" by simp_all
  have k1: "subframeOf subframe1 = 1 \<or> subframeOf subframe1 = 2 \<or> subframeOf subframe1 = 3"
    and k2: "subframeOf subframe2 = 1 \<or> subframeOf subframe2 = 2 \<or> subframeOf subframe2 = 3"
    and k3: "subframeOf subframe3 = 1 \<or> subframeOf subframe3 = 2 \<or> subframeOf subframe3 = 3"
    and k1o: "subframeOf subframe1_other = 1 \<or> subframeOf subframe1_other = 2
                \<or> subframeOf subframe1_other = 3"
    by (simp_all add: subframes_numbers)
  have d: "distinct [subframeOf subframe2, subframeOf subframe3, subframeOf subframe1]"
    and d_other: "distinct [subframeOf subframe2, subframeOf subframe3, subframeOf subframe1_other]"
    by (simp_all add: subframes_numbers)
  show ?thesis
    using getMID8GPSNavData_three_subframes [OF initialOSP_shape s subframes_delivered(2)
        subframes_delivered(3) subframes_delivered(1) subframes_parity(2) subframes_parity(3)
        subframes_parity(1) k2 k3 k1 d, of rinexGR]
      getMID8GPSNavData_three_subframes [OF initialOSP_shape s subframes_delivered(2)
        subframes_delivered(3) subframes_delivered(4) subframes_parity(2) subframes_parity(3)
        subframes_parity(4) k2 k3 k1o d_other, of rinexGR]
    by (simp add: subframes_numbers)
qed

end
